theory Spec2Isabelle
  imports Complex_Main
begin

section \<open>GLSL values and built-in functions\<close>

text \<open>
  The fragment shaders of the render passes are embedded as functions on real numbers:
  a GLSL \<^verbatim>\<open>float\<close> is a \<^typ>\<open>real\<close>, a \<^verbatim>\<open>vec2\<close> a pair, a \<^verbatim>\<open>vec4\<close> a
  quadruple, and a \<^verbatim>\<open>sampler2D\<close> the function that \<^verbatim>\<open>texture2D\<close> evaluates at a
  coordinate (filtering and wrap mode are part of that function).  A GLSL \<^verbatim>\<open>int\<close> is
  an \<^typ>\<open>int\<close>.
\<close>

type_synonym vec2 = "real \<times> real"
type_synonym vec4 = "real \<times> real \<times> real \<times> real"
type_synonym sampler2D = "vec2 \<Rightarrow> vec4"

definition texture2D :: "sampler2D \<Rightarrow> vec2 \<Rightarrow> vec4" where
  "texture2D s uv = s uv"

fun vec4_x :: "vec4 \<Rightarrow> real" where
  "vec4_x (x, y, z, w) = x"

fun vec4_y :: "vec4 \<Rightarrow> real" where
  "vec4_y (x, y, z, w) = y"

fun vec4_z :: "vec4 \<Rightarrow> real" where
  "vec4_z (x, y, z, w) = z"

fun vec4_w :: "vec4 \<Rightarrow> real" where
  "vec4_w (x, y, z, w) = w"

text \<open>\<^verbatim>\<open>vec4(s)\<close>: the same scalar in every component.\<close>

definition vec4_splat :: "real \<Rightarrow> vec4" where
  "vec4_splat s = (s, s, s, s)"

text \<open>Component-wise \<^verbatim>\<open>a + b\<close> and \<^verbatim>\<open>a * s\<close> on \<^verbatim>\<open>vec4\<close>.\<close>

fun vec4_add :: "vec4 \<Rightarrow> vec4 \<Rightarrow> vec4" where
  "vec4_add (a, b, c, d) (a', b', c', d') = (a + a', b + b', c + c', d + d')"

fun vec4_scale :: "vec4 \<Rightarrow> real \<Rightarrow> vec4" where
  "vec4_scale (a, b, c, d) s = (a * s, b * s, c * s, d * s)"

definition clamp :: "real \<Rightarrow> real \<Rightarrow> real \<Rightarrow> real" where
  "clamp x lo hi = min (max x lo) hi"

definition mix :: "real \<Rightarrow> real \<Rightarrow> real \<Rightarrow> real" where
  "mix a b t = a * (1 - t) + b * t"

definition step :: "real \<Rightarrow> real \<Rightarrow> real" where
  "step edge x = (if x < edge then 0 else 1)"

definition ceil :: "real \<Rightarrow> real" where
  "ceil x = real_of_int \<lceil>x\<rceil>"

definition glsl_mod :: "real \<Rightarrow> real \<Rightarrow> real" where
  "glsl_mod x y = x - y * real_of_int \<lfloor>x / y\<rfloor>"

section \<open>The full-screen quad\<close>

text \<open>
  Every pass draws two triangles covering clip space and its vertex shader sets
  \<^verbatim>\<open>vUV = position * 0.5 + 0.5\<close>.  On a render target of \<open>W \<times> H\<close> texels the fragment of
  cell \<open>(i, j)\<close> is shaded at its centre, and \<^verbatim>\<open>vec2(dFdx(vUV.x), dFdy(vUV.y))\<close> is
  the size of one texel.  The definitions below give these values exactly; the device
  computes them in single precision, so a test that they meet with equality is decided by
  its rounding.  They serve for examples whose outcome does not hang on such a test; the
  properties of the stencils are stated for any \<^verbatim>\<open>vUV\<close> and any texel size.
\<close>

definition vertex_vUV :: "vec2 \<Rightarrow> vec2" where
  "vertex_vUV position = (fst position * 0.5 + 0.5, snd position * 0.5 + 0.5)"

definition cell_position :: "nat \<Rightarrow> nat \<Rightarrow> nat \<Rightarrow> nat \<Rightarrow> vec2" where
  "cell_position W H i j =
     (2 * (real i + 1 / 2) / real W - 1, 2 * (real j + 1 / 2) / real H - 1)"

definition cell_vUV :: "nat \<Rightarrow> nat \<Rightarrow> nat \<Rightarrow> nat \<Rightarrow> vec2" where
  "cell_vUV W H i j = vertex_vUV (cell_position W H i j)"

definition cell_texelSize :: "nat \<Rightarrow> nat \<Rightarrow> vec2" where
  "cell_texelSize W H = (1 / real W, 1 / real H)"

section \<open>The chevron pattern (ObstacleMaskPass, BoundaryPass)\<close>

text \<open>
  \<^verbatim>\<open>insideRotatedRect\<close> and the double loop over rows and columns have the same text in
  the obstacle mask shader and in the chevron boundary shader.
\<close>

definition insideRotatedRect :: "vec2 \<Rightarrow> vec2 \<Rightarrow> real \<Rightarrow> real \<Rightarrow> real \<Rightarrow> real" where
  "insideRotatedRect p center length' width angleDeg =
     (let angleRad = angleDeg * 3.14159265 / 180.0;
          cosA = cos (- angleRad);
          sinA = sin (- angleRad);
          dx = fst p - fst center;
          dy = snd p - snd center;
          rotated_x = dx * cosA - dy * sinA;
          rotated_y = dx * sinA + dy * cosA;
          halfLength = length' * 0.5;
          halfWidth = width * 0.5
      in if \<bar>rotated_x\<bar> \<le> halfLength \<and> \<bar>rotated_y\<bar> \<le> halfWidth then 1.0 else 0.0)"

text \<open>The body of the inner loop: the rectangle of one row and column.\<close>

definition chevronRect ::
  "vec2 \<Rightarrow> real \<Rightarrow> real \<Rightarrow> real \<Rightarrow> real \<Rightarrow> real \<Rightarrow> real \<Rightarrow> real \<Rightarrow> real \<Rightarrow> int \<Rightarrow> int \<Rightarrow> real" where
  "chevronRect scaledUV startX startY chevronLength chevronWidth chevronAngle chevronGap
       chevronSpacingX chevronSpacingY row col =
     (let cx = startX + real_of_int col * chevronSpacingX;
          cy = startY + real_of_int row * chevronSpacingY;
          angle = (if glsl_mod (real_of_int col) 2.0 < 0.5 then chevronAngle else - chevronAngle);
          gapOffset = chevronGap * 0.5 * (if glsl_mod (real_of_int col) 2.0 < 0.5 then - 1.0 else 1.0);
          cx = cx + gapOffset
      in insideRotatedRect scaledUV (cx, cy) chevronLength chevronWidth angle)"

text \<open>
  \<^verbatim>\<open>for (int col = 0; col < 20; col++) { if (col >= chevronColumns) break; mask += ... }\<close>,
  the running value of \<^verbatim>\<open>mask\<close> being the last argument.
\<close>

function col_loop :: "int \<Rightarrow> (int \<Rightarrow> real) \<Rightarrow> int \<Rightarrow> real \<Rightarrow> real" where
  "col_loop chevronColumns body col m =
     (if col < 20 then
        (if col \<ge> chevronColumns then m
         else col_loop chevronColumns body (col + 1) (m + body col))
      else m)"
  by pat_completeness auto
termination
  by (relation "measure (\<lambda>(n, b, col, m). nat (20 - col))") auto

text \<open>
  \<^verbatim>\<open>for (int row = 0; row < 20; row++) { if (row >= chevronRows) break; for (col ...) }\<close>
\<close>

function row_loop :: "int \<Rightarrow> int \<Rightarrow> (int \<Rightarrow> int \<Rightarrow> real) \<Rightarrow> int \<Rightarrow> real \<Rightarrow> real" where
  "row_loop chevronRows chevronColumns body row m =
     (if row < 20 then
        (if row \<ge> chevronRows then m
         else row_loop chevronRows chevronColumns body (row + 1)
                (col_loop chevronColumns (body row) 0 m))
      else m)"
  by pat_completeness auto
termination
  by (relation "measure (\<lambda>(n, c, b, row, m). nat (20 - row))") auto

declare col_loop.simps [simp del]
declare row_loop.simps [simp del]

text \<open>The block guarded by \<^verbatim>\<open>if (chevronEnabled)\<close>, ending in the clamp of the sum.\<close>

definition chevronPattern ::
  "vec2 \<Rightarrow> int \<Rightarrow> int \<Rightarrow> real \<Rightarrow> real \<Rightarrow> real \<Rightarrow> real \<Rightarrow> real \<Rightarrow> real \<Rightarrow> vec2 \<Rightarrow> real" where
  "chevronPattern vUV chevronColumns chevronRows chevronLength chevronWidth chevronAngle
       chevronGap chevronSpacingX chevronSpacingY aspect =
     (let scaledUV = (fst vUV * fst aspect, snd vUV);
          totalWidth = real_of_int chevronColumns * chevronSpacingX;
          totalHeight = real_of_int chevronRows * chevronSpacingY;
          startX = (fst aspect - totalWidth) * 0.5 + chevronSpacingX * 0.5;
          startY = (1.0 - totalHeight) * 0.5 + chevronSpacingY * 0.5;
          mask = row_loop chevronRows chevronColumns
                   (chevronRect scaledUV startX startY chevronLength chevronWidth chevronAngle
                      chevronGap chevronSpacingX chevronSpacingY) 0 0.0
      in clamp mask 0.0 1.0)"

text \<open>The fragment shader of \<^verbatim>\<open>ObstacleMaskPass\<close>.\<close>

definition ObstacleMaskPass_main ::
  "bool \<Rightarrow> int \<Rightarrow> int \<Rightarrow> real \<Rightarrow> real \<Rightarrow> real \<Rightarrow> real \<Rightarrow> real \<Rightarrow> real \<Rightarrow> vec2 \<Rightarrow> vec2 \<Rightarrow> vec4" where
  "ObstacleMaskPass_main chevronEnabled chevronColumns chevronRows chevronLength chevronWidth
       chevronAngle chevronGap chevronSpacingX chevronSpacingY aspect vUV =
     (let mask = (if chevronEnabled
                  then chevronPattern vUV chevronColumns chevronRows chevronLength chevronWidth
                         chevronAngle chevronGap chevronSpacingX chevronSpacingY aspect
                  else 0.0)
      in (mask, 0.0, 0.0, 1.0))"

section \<open>BoundaryPass\<close>

text \<open>The four edge masks and their combination, the same text in both boundary shaders.\<close>

definition edgeMask :: "bool \<Rightarrow> vec2 \<Rightarrow> vec2 \<Rightarrow> real" where
  "edgeMask flowEnabled vUV texelSize =
     (let leftEdgeMask = ceil (fst texelSize - fst vUV);
          bottomEdgeMask = ceil (snd texelSize - snd vUV);
          rightEdgeMask = ceil (fst vUV - (1.0 - fst texelSize));
          topEdgeMask = ceil (snd vUV - (1.0 - snd texelSize))
      in if flowEnabled
         then clamp (bottomEdgeMask + topEdgeMask) 0.0 1.0
         else clamp (leftEdgeMask + bottomEdgeMask + rightEdgeMask + topEdgeMask) 0.0 1.0)"

text \<open>
  The mask that the chevron boundary shader reflects at:
  \<^verbatim>\<open>clamp(edgeMask + chevronMask, 0.0, 1.0)\<close>.
\<close>

definition BoundaryPass_chevron_mask ::
  "bool \<Rightarrow> bool \<Rightarrow> int \<Rightarrow> int \<Rightarrow> real \<Rightarrow> real \<Rightarrow> real \<Rightarrow> real \<Rightarrow> real \<Rightarrow> real \<Rightarrow> vec2 \<Rightarrow> vec2 \<Rightarrow> vec2 \<Rightarrow> real" where
  "BoundaryPass_chevron_mask flowEnabled chevronEnabled chevronColumns chevronRows chevronLength
       chevronWidth chevronAngle chevronGap chevronSpacingX chevronSpacingY aspect vUV texelSize =
     (let chevronMask = (if chevronEnabled
                         then chevronPattern vUV chevronColumns chevronRows chevronLength
                                chevronWidth chevronAngle chevronGap chevronSpacingX
                                chevronSpacingY aspect
                         else 0.0)
      in clamp (edgeMask flowEnabled vUV texelSize + chevronMask) 0.0 1.0)"

text \<open>The fragment shader of the boundary pass with the chevron pattern.\<close>

definition BoundaryPass_chevron_main ::
  "sampler2D \<Rightarrow> bool \<Rightarrow> bool \<Rightarrow> int \<Rightarrow> int \<Rightarrow> real \<Rightarrow> real \<Rightarrow> real \<Rightarrow> real \<Rightarrow> real \<Rightarrow> real \<Rightarrow> vec2 \<Rightarrow> vec2 \<Rightarrow> vec2 \<Rightarrow> vec4" where
  "BoundaryPass_chevron_main velocity flowEnabled chevronEnabled chevronColumns chevronRows
       chevronLength chevronWidth chevronAngle chevronGap chevronSpacingX chevronSpacingY aspect
       vUV texelSize =
     (let mask = BoundaryPass_chevron_mask flowEnabled chevronEnabled chevronColumns chevronRows
                   chevronLength chevronWidth chevronAngle chevronGap chevronSpacingX
                   chevronSpacingY aspect vUV texelSize;
          direction = mix 1.0 (- 1.0) mask
      in vec4_scale (texture2D velocity vUV) direction)"

text \<open>
  The boundary shader of \<^verbatim>\<open>passes/BoundaryPass.ts\<close>, with one square obstacle; the
  value \<^verbatim>\<open>atEdge\<close> it computes is not used.
\<close>

definition BoundaryPass_mask :: "bool \<Rightarrow> bool \<Rightarrow> vec2 \<Rightarrow> real \<Rightarrow> vec2 \<Rightarrow> vec2 \<Rightarrow> vec2 \<Rightarrow> real" where
  "BoundaryPass_mask flowEnabled obstacleEnabled obstaclePos obstacleSize aspect vUV texelSize =
     (let obstacleMask =
            (if obstacleEnabled
             then (let scaledUV = (fst vUV * fst aspect, snd vUV);
                       scaledObsPos = (fst obstaclePos * fst aspect, snd obstaclePos);
                       halfSize = obstacleSize * 0.5;
                       dx = \<bar>fst scaledUV - fst scaledObsPos\<bar> - halfSize;
                       dy = \<bar>snd scaledUV - snd scaledObsPos\<bar> - halfSize;
                       inside = step (max dx dy) 0.0
                   in inside)
             else 0.0)
      in clamp (edgeMask flowEnabled vUV texelSize + obstacleMask) 0.0 1.0)"

definition BoundaryPass_main ::
  "sampler2D \<Rightarrow> bool \<Rightarrow> bool \<Rightarrow> vec2 \<Rightarrow> real \<Rightarrow> vec2 \<Rightarrow> vec2 \<Rightarrow> vec2 \<Rightarrow> vec4" where
  "BoundaryPass_main velocity flowEnabled obstacleEnabled obstaclePos obstacleSize aspect
       vUV texelSize =
     (let mask = BoundaryPass_mask flowEnabled obstacleEnabled obstaclePos obstacleSize aspect
                   vUV texelSize;
          direction = mix 1.0 (- 1.0) mask
      in vec4_scale (texture2D velocity vUV) direction)"

section \<open>DivergencePass\<close>

text \<open>
  The fragment shader of \<^verbatim>\<open>DivergencePass\<close>.  The uniform \<^verbatim>\<open>timeDelta\<close> is declared
  and not read.
\<close>

definition DivergencePass_main :: "sampler2D \<Rightarrow> sampler2D \<Rightarrow> bool \<Rightarrow> vec2 \<Rightarrow> vec2 \<Rightarrow> vec4" where
  "DivergencePass_main velocity obstacleMask useObstacleMask vUV texelSize =
     (if useObstacleMask \<and> vec4_x (texture2D obstacleMask vUV) > 0.5 then vec4_splat 0.0
      else
        (let uvLeft = (fst vUV - fst texelSize, snd vUV);
             uvRight = (fst vUV + fst texelSize, snd vUV);
             uvDown = (fst vUV, snd vUV - snd texelSize);
             uvUp = (fst vUV, snd vUV + snd texelSize);
             vCenter_x = vec4_x (texture2D velocity vUV);
             vCenter_y = vec4_y (texture2D velocity vUV);
             x0 = vec4_x (texture2D velocity uvLeft);
             x1 = vec4_x (texture2D velocity uvRight);
             y0 = vec4_y (texture2D velocity uvDown);
             y1 = vec4_y (texture2D velocity uvUp);
             maskLeft = vec4_x (texture2D obstacleMask uvLeft);
             maskRight = vec4_x (texture2D obstacleMask uvRight);
             maskDown = vec4_x (texture2D obstacleMask uvDown);
             maskUp = vec4_x (texture2D obstacleMask uvUp);
             x0 = (if useObstacleMask \<and> maskLeft > 0.5 then vCenter_x else x0);
             x1 = (if useObstacleMask \<and> maskRight > 0.5 then vCenter_x else x1);
             y0 = (if useObstacleMask \<and> maskDown > 0.5 then vCenter_y else y0);
             y1 = (if useObstacleMask \<and> maskUp > 0.5 then vCenter_y else y1);
             x0 = (if useObstacleMask \<and> fst vUV < fst texelSize * 1.5 then vCenter_x else x0);
             x1 = (if useObstacleMask \<and> fst vUV > 1.0 - fst texelSize * 1.5 then vCenter_x else x1);
             y0 = (if useObstacleMask \<and> snd vUV < snd texelSize * 1.5 then vCenter_y else y0);
             y1 = (if useObstacleMask \<and> snd vUV > 1.0 - snd texelSize * 1.5 then vCenter_y else y1);
             divergence = (x1 - x0 + y1 - y0) * 0.5
         in vec4_splat divergence))"

section \<open>JacobiIterationsPass\<close>

text \<open>The fragment shader of \<^verbatim>\<open>JacobiIterationsPass\<close>.\<close>

definition JacobiIterationsPass_main ::
  "real \<Rightarrow> real \<Rightarrow> sampler2D \<Rightarrow> sampler2D \<Rightarrow> sampler2D \<Rightarrow> bool \<Rightarrow> vec2 \<Rightarrow> vec2 \<Rightarrow> vec4" where
  "JacobiIterationsPass_main alpha beta previousIteration divergence obstacleMask useObstacleMask
       vUV texelSize =
     (let centerMask = vec4_x (texture2D obstacleMask vUV)
      in if useObstacleMask \<and> centerMask > 0.5 then vec4_splat 0.0
         else if useObstacleMask \<and> fst vUV > 1.0 - fst texelSize * 1.5 then vec4_splat 0.0
         else
           (let center = texture2D previousIteration vUV;
                uvLeft = (fst vUV - fst texelSize, snd vUV);
                uvRight = (fst vUV + fst texelSize, snd vUV);
                uvDown = (fst vUV, snd vUV - snd texelSize);
                uvUp = (fst vUV, snd vUV + snd texelSize);
                x0 = texture2D previousIteration uvLeft;
                x1 = texture2D previousIteration uvRight;
                y0 = texture2D previousIteration uvDown;
                y1 = texture2D previousIteration uvUp;
                maskLeft = vec4_x (texture2D obstacleMask uvLeft);
                maskRight = vec4_x (texture2D obstacleMask uvRight);
                maskDown = vec4_x (texture2D obstacleMask uvDown);
                maskUp = vec4_x (texture2D obstacleMask uvUp);
                x0 = (if useObstacleMask \<and> maskLeft > 0.5 then center else x0);
                x1 = (if useObstacleMask \<and> maskRight > 0.5 then center else x1);
                y0 = (if useObstacleMask \<and> maskDown > 0.5 then center else y0);
                y1 = (if useObstacleMask \<and> maskUp > 0.5 then center else y1);
                x0 = (if useObstacleMask \<and> fst vUV < fst texelSize * 1.5 then center else x0);
                x1 = (if useObstacleMask \<and> fst vUV > 1.0 - fst texelSize * 1.5
                      then vec4_splat 0.0 else x1);
                y0 = (if useObstacleMask \<and> snd vUV < snd texelSize * 1.5 then center else y0);
                y1 = (if useObstacleMask \<and> snd vUV > 1.0 - snd texelSize * 1.5 then center else y1);
                d = texture2D divergence vUV
            in vec4_scale
                 (vec4_add (vec4_add (vec4_add (vec4_add x0 x1) y0) y1) (vec4_scale d alpha))
                 beta))"

section \<open>GradientSubstractionPass\<close>

text \<open>
  The fragment shader of \<^verbatim>\<open>GradientSubstractionPass\<close>.  The uniform \<^verbatim>\<open>timeDelta\<close> is
  declared and not read.
\<close>

definition GradientSubstractionPass_main ::
  "sampler2D \<Rightarrow> sampler2D \<Rightarrow> sampler2D \<Rightarrow> bool \<Rightarrow> vec2 \<Rightarrow> vec2 \<Rightarrow> vec4" where
  "GradientSubstractionPass_main velocity pressure obstacleMask useObstacleMask vUV texelSize =
     (let centerMask = vec4_x (texture2D obstacleMask vUV)
      in if useObstacleMask \<and> centerMask > 0.5 then (0.0, 0.0, 0.0, 1.0)
         else
           (let uvLeft = (fst vUV - fst texelSize, snd vUV);
                uvRight = (fst vUV + fst texelSize, snd vUV);
                uvDown = (fst vUV, snd vUV - snd texelSize);
                uvUp = (fst vUV, snd vUV + snd texelSize);
                x0 = vec4_x (texture2D pressure uvLeft);
                x1 = vec4_x (texture2D pressure uvRight);
                y0 = vec4_x (texture2D pressure uvDown);
                y1 = vec4_x (texture2D pressure uvUp);
                pCenter = vec4_x (texture2D pressure vUV);
                maskLeft = vec4_x (texture2D obstacleMask uvLeft);
                maskRight = vec4_x (texture2D obstacleMask uvRight);
                maskDown = vec4_x (texture2D obstacleMask uvDown);
                maskUp = vec4_x (texture2D obstacleMask uvUp);
                x0 = (if useObstacleMask \<and> maskLeft > 0.5 then pCenter else x0);
                x1 = (if useObstacleMask \<and> maskRight > 0.5 then pCenter else x1);
                y0 = (if useObstacleMask \<and> maskDown > 0.5 then pCenter else y0);
                y1 = (if useObstacleMask \<and> maskUp > 0.5 then pCenter else y1);
                x0 = (if useObstacleMask \<and> fst vUV < fst texelSize * 1.5 then pCenter else x0);
                x1 = (if useObstacleMask \<and> fst vUV > 1.0 - fst texelSize * 1.5 then 0.0 else x1);
                y0 = (if useObstacleMask \<and> snd vUV < snd texelSize * 1.5 then pCenter else y0);
                y1 = (if useObstacleMask \<and> snd vUV > 1.0 - snd texelSize * 1.5 then pCenter else y1);
                v_x = vec4_x (texture2D velocity vUV) - 0.5 * (x1 - x0);
                v_y = vec4_y (texture2D velocity vUV) - 0.5 * (y1 - y0)
            in (v_x, v_y, 0.0, 1.0)))"

section \<open>MeasurementPass\<close>

text \<open>The fragment shader of \<^verbatim>\<open>MeasurementPass\<close>; it does not read \<^verbatim>\<open>vUV\<close>.\<close>

definition MeasurementPass_main :: "sampler2D \<Rightarrow> sampler2D \<Rightarrow> vec2 \<Rightarrow> real \<Rightarrow> vec4" where
  "MeasurementPass_main pressureTexture velocityTexture samplePosition valueScale =
     (let pressure = vec4_x (texture2D pressureTexture samplePosition);
          velocity_x = vec4_x (texture2D velocityTexture samplePosition);
          velocity_y = vec4_y (texture2D velocityTexture samplePosition);
          encodedPressure = clamp (pressure / valueScale + 0.5) 0.0 1.0;
          encodedVelX = clamp (velocity_x / valueScale + 0.5) 0.0 1.0;
          encodedVelY = clamp (velocity_y / valueScale + 0.5) 0.0 1.0
      in (encodedPressure, encodedVelX, encodedVelY, 1.0))"

section \<open>Uniform tables and the passes' update methods\<close>

text \<open>
  A JavaScript value as far as the passes store them in uniforms.  A texture is
  represented by what sampling it returns.  \<open>DEFAULT_IMAGE\<close> stands for
  \<^verbatim>\<open>Texture.DEFAULT_IMAGE\<close>, the initial value of every sampler uniform.
\<close>

datatype jsval =
    JUndefined
  | JBool bool
  | JNumber real
  | JVector2 real real
  | JTexture sampler2D
  | DEFAULT_IMAGE

text \<open>
  An object is a finite table of properties.  It serves for the parameter object
  \<^verbatim>\<open>uniforms: any\<close> handed to \<^verbatim>\<open>update\<close> and for \<^verbatim>\<open>material.uniforms\<close>, where the
  entry of a name is the \<^verbatim>\<open>value\<close> of that \<^verbatim>\<open>Uniform\<close>.
\<close>

type_synonym jsobject = "string \<rightharpoonup> jsval"

datatype error = TypeError

text \<open>Reading a property: an absent property reads as \<^verbatim>\<open>undefined\<close>.\<close>

definition property :: "jsobject \<Rightarrow> string \<Rightarrow> jsval" where
  "property obj k = (case obj k of None \<Rightarrow> JUndefined | Some v \<Rightarrow> v)"

text \<open>
  \<^verbatim>\<open>this.material.uniforms.k.value = v\<close>: when the material has no uniform \<open>k\<close>, the
  assignment to a property of \<^verbatim>\<open>undefined\<close> throws.
\<close>

definition set_uniform_value :: "jsobject \<Rightarrow> string \<Rightarrow> jsval \<Rightarrow> error + jsobject" where
  "set_uniform_value m k v = (case m k of None \<Rightarrow> Inl TypeError | Some _ \<Rightarrow> Inr (m(k \<mapsto> v)))"

text \<open>
  One statement of an update method:
  \<^verbatim>\<open>if (uniforms.k !== undefined) { this.material.uniforms.k.value = uniforms.k; }\<close>
\<close>

definition update_uniform :: "jsobject \<Rightarrow> string \<Rightarrow> jsobject \<Rightarrow> error + jsobject" where
  "update_uniform uniforms k m =
     (if property uniforms k \<noteq> JUndefined then set_uniform_value m k (property uniforms k) else Inr m)"

text \<open>The statements of an update method run in order; the first that throws ends it.\<close>

fun update_uniforms :: "string list \<Rightarrow> jsobject \<Rightarrow> jsobject \<Rightarrow> error + jsobject" where
  "update_uniforms [] uniforms m = Inr m"
| "update_uniforms (k # ks) uniforms m =
     (case update_uniform uniforms k m of
        Inl e \<Rightarrow> Inl e
      | Inr m' \<Rightarrow> update_uniforms ks uniforms m')"

text \<open>\<^verbatim>\<open>JacobiIterationsPass\<close>: the uniforms its constructor creates, and its update.\<close>

definition JacobiIterationsPass_new :: jsobject where
  "JacobiIterationsPass_new =
     [''alpha'' \<mapsto> JNumber (- 1.0),
      ''beta'' \<mapsto> JNumber 0.25,
      ''previousIteration'' \<mapsto> DEFAULT_IMAGE,
      ''divergence'' \<mapsto> DEFAULT_IMAGE,
      ''obstacleMask'' \<mapsto> DEFAULT_IMAGE,
      ''useObstacleMask'' \<mapsto> JBool False]"

definition JacobiIterationsPass_update :: "jsobject \<Rightarrow> jsobject \<Rightarrow> error + jsobject" where
  "JacobiIterationsPass_update uniforms m =
     update_uniforms [''previousIteration'', ''divergence'', ''obstacleMask'', ''useObstacleMask'']
       uniforms m"

text \<open>\<^verbatim>\<open>BoundaryPass\<close> of \<^verbatim>\<open>passes/BoundaryPass.ts\<close>.\<close>

definition BoundaryPass_new :: jsobject where
  "BoundaryPass_new =
     [''velocity'' \<mapsto> DEFAULT_IMAGE,
      ''flowEnabled'' \<mapsto> JBool False,
      ''obstacleEnabled'' \<mapsto> JBool False,
      ''obstaclePos'' \<mapsto> JVector2 0.5 0.5,
      ''obstacleSize'' \<mapsto> JNumber 0.1,
      ''aspect'' \<mapsto> JVector2 1.0 1.0]"

definition BoundaryPass_update :: "jsobject \<Rightarrow> jsobject \<Rightarrow> error + jsobject" where
  "BoundaryPass_update uniforms m =
     update_uniforms [''velocity'', ''flowEnabled'', ''obstacleEnabled'', ''obstaclePos'',
       ''obstacleSize'', ''aspect''] uniforms m"

text \<open>
  \<^verbatim>\<open>GradientSubstractionPass\<close>.  Its update has a statement for \<^verbatim>\<open>density\<close>, a uniform
  the constructor does not create.
\<close>

definition GradientSubstractionPass_new :: jsobject where
  "GradientSubstractionPass_new =
     [''timeDelta'' \<mapsto> JNumber 0.0,
      ''velocity'' \<mapsto> DEFAULT_IMAGE,
      ''pressure'' \<mapsto> DEFAULT_IMAGE,
      ''obstacleMask'' \<mapsto> DEFAULT_IMAGE,
      ''useObstacleMask'' \<mapsto> JBool False]"

definition GradientSubstractionPass_update :: "jsobject \<Rightarrow> jsobject \<Rightarrow> error + jsobject" where
  "GradientSubstractionPass_update uniforms m =
     update_uniforms [''timeDelta'', ''density'', ''velocity'', ''pressure'', ''obstacleMask'',
       ''useObstacleMask''] uniforms m"

text \<open>\<^verbatim>\<open>DivergencePass\<close>, with the same statement for \<^verbatim>\<open>density\<close>.\<close>

definition DivergencePass_new :: jsobject where
  "DivergencePass_new =
     [''timeDelta'' \<mapsto> JNumber 0.0,
      ''velocity'' \<mapsto> DEFAULT_IMAGE,
      ''obstacleMask'' \<mapsto> DEFAULT_IMAGE,
      ''useObstacleMask'' \<mapsto> JBool False]"

definition DivergencePass_update :: "jsobject \<Rightarrow> jsobject \<Rightarrow> error + jsobject" where
  "DivergencePass_update uniforms m =
     update_uniforms [''timeDelta'', ''density'', ''velocity'', ''obstacleMask'',
       ''useObstacleMask''] uniforms m"

text \<open>\<^verbatim>\<open>MeasurementPass\<close>.\<close>

definition MeasurementPass_new :: jsobject where
  "MeasurementPass_new =
     [''pressureTexture'' \<mapsto> DEFAULT_IMAGE,
      ''velocityTexture'' \<mapsto> DEFAULT_IMAGE,
      ''samplePosition'' \<mapsto> JVector2 0.5 0.5,
      ''valueScale'' \<mapsto> JNumber 10.0]"

definition MeasurementPass_update :: "jsobject \<Rightarrow> jsobject \<Rightarrow> error + jsobject" where
  "MeasurementPass_update uniforms m =
     update_uniforms [''pressureTexture'', ''velocityTexture'', ''samplePosition'',
       ''valueScale''] uniforms m"

section \<open>Drawing a pass\<close>

text \<open>
  What the sources leave to the library and the device, as parameters: the texture a sampler
  reads when its uniform holds no texture, the texture that results from shading a render
  target with a fragment function, and the texel size of the simulation's render targets
  (velocity, divergence and pressure are created with one resolution).
\<close>

record renderer =
  emptyTexture :: sampler2D
  written :: "(vec2 \<Rightarrow> vec4) \<Rightarrow> sampler2D"
  texelSize :: vec2

text \<open>The value a shader reads from a uniform of its material.\<close>

definition uniform_float :: "jsobject \<Rightarrow> string \<Rightarrow> real" where
  "uniform_float m k = (case property m k of JNumber x \<Rightarrow> x | _ \<Rightarrow> 0)"

definition uniform_bool :: "jsobject \<Rightarrow> string \<Rightarrow> bool" where
  "uniform_bool m k = (case property m k of JBool b \<Rightarrow> b | _ \<Rightarrow> False)"

definition uniform_vec2 :: "jsobject \<Rightarrow> string \<Rightarrow> vec2" where
  "uniform_vec2 m k = (case property m k of JVector2 x y \<Rightarrow> (x, y) | _ \<Rightarrow> (0, 0))"

definition sampler_of :: "renderer \<Rightarrow> jsval \<Rightarrow> sampler2D" where
  "sampler_of R v = (case v of JTexture t \<Rightarrow> t | _ \<Rightarrow> emptyTexture R)"

definition uniform_sampler :: "renderer \<Rightarrow> jsobject \<Rightarrow> string \<Rightarrow> sampler2D" where
  "uniform_sampler R m k = sampler_of R (property m k)"

text \<open>\<^verbatim>\<open>renderer.render(pass.scene, camera)\<close> into a render target: the texture written.\<close>

definition DivergencePass_render :: "renderer \<Rightarrow> jsobject \<Rightarrow> sampler2D" where
  "DivergencePass_render R m =
     written R (\<lambda>vUV. DivergencePass_main (uniform_sampler R m ''velocity'')
                        (uniform_sampler R m ''obstacleMask'') (uniform_bool m ''useObstacleMask'')
                        vUV (texelSize R))"

definition JacobiIterationsPass_render :: "renderer \<Rightarrow> jsobject \<Rightarrow> sampler2D" where
  "JacobiIterationsPass_render R m =
     written R (\<lambda>vUV. JacobiIterationsPass_main (uniform_float m ''alpha'')
                        (uniform_float m ''beta'') (uniform_sampler R m ''previousIteration'')
                        (uniform_sampler R m ''divergence'') (uniform_sampler R m ''obstacleMask'')
                        (uniform_bool m ''useObstacleMask'') vUV (texelSize R))"

definition GradientSubstractionPass_render :: "renderer \<Rightarrow> jsobject \<Rightarrow> sampler2D" where
  "GradientSubstractionPass_render R m =
     written R (\<lambda>vUV. GradientSubstractionPass_main (uniform_sampler R m ''velocity'')
                        (uniform_sampler R m ''pressure'') (uniform_sampler R m ''obstacleMask'')
                        (uniform_bool m ''useObstacleMask'') vUV (texelSize R))"

section \<open>The render loop: divergence, pressure solve, projection\<close>

text \<open>Throwing ends the enclosing function: the rest runs on a normal result only.\<close>

definition and_then :: "error + 'a \<Rightarrow> ('a \<Rightarrow> error + 'b) \<Rightarrow> error + 'b" where
  "and_then r f = (case r of Inl e \<Rightarrow> Inl e | Inr x \<Rightarrow> f x)"

text \<open>The entries of \<^verbatim>\<open>configuration\<close> that these stages read.\<close>

record configuration =
  Simulate :: bool
  Iterations :: int

text \<open>
  The three passes (each the uniform table of its material) and the variables
  \<^verbatim>\<open>v\<close>, \<^verbatim>\<open>d\<close>, \<^verbatim>\<open>p\<close> of the main module, declared without a value.
\<close>

record simulation =
  velocityDivergencePass :: jsobject
  pressurePass :: jsobject
  pressureSubstractionPass :: jsobject
  var_v :: jsval
  var_d :: jsval
  var_p :: jsval

definition simulation_init :: simulation where
  "simulation_init =
     \<lparr>velocityDivergencePass = DivergencePass_new,
      pressurePass = JacobiIterationsPass_new,
      pressureSubstractionPass = GradientSubstractionPass_new,
      var_v = JUndefined, var_d = JUndefined, var_p = JUndefined\<rparr>"

text \<open>
  Modelled from the spec: \<^verbatim>\<open>RenderTarget\<close> is not among the sources.  A field owns two
  buffers, a step reads one and writes the other, never the one being read; so
  \<^verbatim>\<open>p = pressureRT.set(renderer); renderer.render(pressurePass.scene, camera)\<close> leaves in
  \<^verbatim>\<open>p\<close> the texture drawn from the uniforms as they are at that moment.

  \<^verbatim>\<open>for (let i = 0; i < configuration.Iterations; ++i) { ... }\<close>
\<close>

function pressure_loop :: "renderer \<Rightarrow> int \<Rightarrow> int \<Rightarrow> simulation \<Rightarrow> error + simulation" where
  "pressure_loop R N i st =
     (if i < N then
        (let st = st\<lparr>var_p := JTexture (JacobiIterationsPass_render R (pressurePass st))\<rparr>
         in and_then
              (JacobiIterationsPass_update [''previousIteration'' \<mapsto> var_p st] (pressurePass st))
              (\<lambda>m. pressure_loop R N (i + 1) (st\<lparr>pressurePass := m\<rparr>)))
      else Inr st)"
  by pat_completeness auto
termination
  by (relation "measure (\<lambda>(R, N, i, st). nat (N - i))") auto

declare pressure_loop.simps [simp del]

text \<open>
  One call of \<^verbatim>\<open>render\<close>, as far as it touches the three passes and \<^verbatim>\<open>v\<close>, \<^verbatim>\<open>d\<close>,
  \<^verbatim>\<open>p\<close>.  The stages before the divergence (advection, forces, flow source, boundary)
  leave a velocity texture in \<^verbatim>\<open>v\<close>; the advection, force and flow passes are not among
  the sources, so that texture is the argument \<open>v_in\<close>.  The stages after the projection
  (colour, smoke, composition, measurement) assign none of these.
\<close>

definition render ::
  "renderer \<Rightarrow> configuration \<Rightarrow> real \<Rightarrow> sampler2D \<Rightarrow> simulation \<Rightarrow> error + simulation" where
  "render R config dt v_in st =
     (if Simulate config then
        (let st = st\<lparr>var_v := JTexture v_in\<rparr>
         in and_then
              (DivergencePass_update [''timeDelta'' \<mapsto> JNumber dt, ''velocity'' \<mapsto> var_v st]
                 (velocityDivergencePass st))
              (\<lambda>m. let st = st\<lparr>velocityDivergencePass := m\<rparr>;
                        st = st\<lparr>var_d := JTexture (DivergencePass_render R (velocityDivergencePass st))\<rparr>
                    in and_then
                         (JacobiIterationsPass_update [''divergence'' \<mapsto> var_d st] (pressurePass st))
                         (\<lambda>m. and_then
                                 (pressure_loop R (Iterations config) 0 (st\<lparr>pressurePass := m\<rparr>))
                                 (\<lambda>st. and_then
                                          (GradientSubstractionPass_update
                                             [''timeDelta'' \<mapsto> JNumber dt, ''velocity'' \<mapsto> var_v st,
                                              ''pressure'' \<mapsto> var_p st]
                                             (pressureSubstractionPass st))
                                          (\<lambda>m. let st = st\<lparr>pressureSubstractionPass := m\<rparr>
                                                in Inr (st\<lparr>var_v := JTexture
                                                     (GradientSubstractionPass_render R
                                                        (pressureSubstractionPass st))\<rparr>))))))
      else Inr st)"

text \<open>
  The states of the running program: \<^verbatim>\<open>animate\<close> calls \<^verbatim>\<open>render\<close> once per frame,
  with whatever the controls have made of the configuration; no other code of the main
  module calls a method of the three passes.
\<close>

inductive reachable :: "renderer \<Rightarrow> simulation \<Rightarrow> bool" for R :: renderer where
  reachable_init: "reachable R simulation_init"
| reachable_render: "reachable R st \<Longrightarrow> render R config dt v_in st = Inr st' \<Longrightarrow> reachable R st'"

section \<open>Measurement read-back\<close>

definition VALUE_SCALE :: real where
  "VALUE_SCALE = 10.0"

text \<open>
  The measurement target stores unsigned bytes.  Writing a colour component \<open>c\<close> of
  \<open>[0, 1]\<close> stores the nearest of the levels \<open>0 \<dots> 255\<close>, the device's conversion of a
  normalised value; \<^verbatim>\<open>readRenderTargetPixels\<close> returns that byte.
\<close>

definition unsigned_byte :: "real \<Rightarrow> nat" where
  "unsigned_byte c = nat \<lfloor>c * 255 + 1 / 2\<rfloor>"

text \<open>The expression by which \<^verbatim>\<open>sampleAtPosition\<close> decodes each byte.\<close>

definition decode :: "real \<Rightarrow> nat \<Rightarrow> real" where
  "decode scale byte = ((real byte / 255) - 0.5) * scale"

text \<open>The expression by which the shader encodes each value.\<close>

definition encode :: "real \<Rightarrow> real \<Rightarrow> real" where
  "encode valueScale val = clamp (val / valueScale + 0.5) 0.0 1.0"

text \<open>
  \<^verbatim>\<open>sampleAtPosition(x, y)\<close> on the textures \<^verbatim>\<open>p\<close> and \<^verbatim>\<open>v\<close>: the pass's uniform table
  after the call and the record \<^verbatim>\<open>{ pressure, velX, velY }\<close> returned.
\<close>

definition sampleAtPosition ::
  "renderer \<Rightarrow> jsval \<Rightarrow> jsval \<Rightarrow> real \<Rightarrow> real \<Rightarrow> jsobject \<Rightarrow> error + jsobject \<times> real \<times> real \<times> real" where
  "sampleAtPosition R p v x y measurementPass =
     (let clampedX = max 0 (min 1 x);
          clampedY = max 0 (min 1 y);
          samplePosition = JVector2 clampedX clampedY
      in and_then
           (MeasurementPass_update
              [''pressureTexture'' \<mapsto> p, ''velocityTexture'' \<mapsto> v,
               ''samplePosition'' \<mapsto> samplePosition, ''valueScale'' \<mapsto> JNumber VALUE_SCALE]
              measurementPass)
           (\<lambda>m. let color = MeasurementPass_main (uniform_sampler R m ''pressureTexture'')
                               (uniform_sampler R m ''velocityTexture'')
                               (uniform_vec2 m ''samplePosition'') (uniform_float m ''valueScale'');
                     measurementBuffer = [unsigned_byte (vec4_x color), unsigned_byte (vec4_y color),
                                          unsigned_byte (vec4_z color), unsigned_byte (vec4_w color)];
                     pressure = decode VALUE_SCALE (measurementBuffer ! 0);
                     velX = decode VALUE_SCALE (measurementBuffer ! 1);
                     velY = decode VALUE_SCALE (measurementBuffer ! 2)
                 in Inr (m, pressure, velX, velY)))"

section \<open>Notions used to state the properties\<close>

text \<open>A cell counts as obstacle where the mask texture's red channel exceeds one half.\<close>

definition obstacle_at :: "sampler2D \<Rightarrow> vec2 \<Rightarrow> bool" where
  "obstacle_at obstacleMask uv \<longleftrightarrow> vec4_x (texture2D obstacleMask uv) > 0.5"

text \<open>The coordinates of the four neighbours, one texel away.\<close>

definition left_of :: "vec2 \<Rightarrow> vec2 \<Rightarrow> vec2" where
  "left_of uv ts = (fst uv - fst ts, snd uv)"

definition right_of :: "vec2 \<Rightarrow> vec2 \<Rightarrow> vec2" where
  "right_of uv ts = (fst uv + fst ts, snd uv)"

definition below :: "vec2 \<Rightarrow> vec2 \<Rightarrow> vec2" where
  "below uv ts = (fst uv, snd uv - snd ts)"

definition above :: "vec2 \<Rightarrow> vec2 \<Rightarrow> vec2" where
  "above uv ts = (fst uv, snd uv + snd ts)"

text \<open>
  The fragment lies less than one and a half texels from an edge of the domain: the tests
  \<^verbatim>\<open>vUV.x < texelSize.x * 1.5\<close>, \<^verbatim>\<open>vUV.x > 1.0 - texelSize.x * 1.5\<close> and the two for
  \<^verbatim>\<open>y\<close>.
\<close>

definition near_left :: "vec2 \<Rightarrow> vec2 \<Rightarrow> bool" where
  "near_left uv ts \<longleftrightarrow> fst uv < fst ts * 1.5"

definition near_right :: "vec2 \<Rightarrow> vec2 \<Rightarrow> bool" where
  "near_right uv ts \<longleftrightarrow> fst uv > 1.0 - fst ts * 1.5"

definition near_bottom :: "vec2 \<Rightarrow> vec2 \<Rightarrow> bool" where
  "near_bottom uv ts \<longleftrightarrow> snd uv < snd ts * 1.5"

definition near_top :: "vec2 \<Rightarrow> vec2 \<Rightarrow> bool" where
  "near_top uv ts \<longleftrightarrow> snd uv > 1.0 - snd ts * 1.5"

text \<open>
  Containment in a rotated rectangle as the specification words it: translate the point
  to the rectangle's centre, rotate by the negative angle, compare with half the length
  and half the width.
\<close>

definition rotated_rectangle_contains :: "vec2 \<Rightarrow> real \<Rightarrow> real \<Rightarrow> real \<Rightarrow> vec2 \<Rightarrow> bool" where
  "rotated_rectangle_contains center len wid angleDeg p \<longleftrightarrow>
     (let t = - (angleDeg * 3.14159265 / 180);
          lx = fst p - fst center;
          ly = snd p - snd center
      in \<bar>lx * cos t - ly * sin t\<bar> \<le> len / 2 \<and> \<bar>lx * sin t + ly * cos t\<bar> \<le> wid / 2)"

text \<open>
  The rectangle of a row and column of the pattern: centres evenly spaced around the
  middle of the domain, moved by half the gap to the left in even columns and to the
  right in odd ones; the angle positive in even columns and negative in odd ones.
\<close>

definition chevron_center :: "int \<Rightarrow> int \<Rightarrow> real \<Rightarrow> real \<Rightarrow> real \<Rightarrow> vec2 \<Rightarrow> int \<Rightarrow> int \<Rightarrow> vec2" where
  "chevron_center columns rows gap spacingX spacingY aspect row col =
     ((fst aspect - real_of_int columns * spacingX) / 2 + spacingX / 2
        + real_of_int col * spacingX + (if even col then - gap / 2 else gap / 2),
      (1 - real_of_int rows * spacingY) / 2 + spacingY / 2 + real_of_int row * spacingY)"

definition chevron_angle :: "real \<Rightarrow> int \<Rightarrow> real" where
  "chevron_angle angleDeg col = (if even col then angleDeg else - angleDeg)"

text \<open>The point, scaled to the aspect ratio, lies in the rectangle of that row and column.\<close>

definition chevron_contains ::
  "int \<Rightarrow> int \<Rightarrow> real \<Rightarrow> real \<Rightarrow> real \<Rightarrow> real \<Rightarrow> real \<Rightarrow> real \<Rightarrow> vec2 \<Rightarrow> int \<Rightarrow> int \<Rightarrow> vec2 \<Rightarrow> bool" where
  "chevron_contains columns rows len wid angleDeg gap spacingX spacingY aspect row col uv \<longleftrightarrow>
     rotated_rectangle_contains
       (chevron_center columns rows gap spacingX spacingY aspect row col)
       len wid (chevron_angle angleDeg col) (fst uv * fst aspect, snd uv)"

text \<open>A uniform table has the uniforms of a given constructor.\<close>

definition same_uniforms :: "jsobject \<Rightarrow> jsobject \<Rightarrow> bool" where
  "same_uniforms m m0 \<longleftrightarrow> dom m = dom m0"

text \<open>
  The table an update is expected to leave: each uniform among \<open>ks\<close> whose key the
  parameter object defines takes that value, every other entry stays.
\<close>

definition updated :: "string set \<Rightarrow> jsobject \<Rightarrow> jsobject \<Rightarrow> jsobject" where
  "updated ks uniforms m =
     (\<lambda>k. if k \<in> ks \<and> property uniforms k \<noteq> JUndefined then Some (property uniforms k) else m k)"

text \<open>The stencils without any obstacle or edge handling.\<close>

definition plain_divergence :: "sampler2D \<Rightarrow> vec2 \<Rightarrow> vec2 \<Rightarrow> vec4" where
  "plain_divergence velocity uv ts =
     vec4_splat (((vec4_x (velocity (right_of uv ts)) - vec4_x (velocity (left_of uv ts)))
                  + (vec4_y (velocity (above uv ts)) - vec4_y (velocity (below uv ts)))) / 2)"

definition plain_jacobi :: "real \<Rightarrow> real \<Rightarrow> sampler2D \<Rightarrow> sampler2D \<Rightarrow> vec2 \<Rightarrow> vec2 \<Rightarrow> vec4" where
  "plain_jacobi alpha beta p d uv ts =
     vec4_scale
       (vec4_add
          (vec4_add (vec4_add (vec4_add (p (left_of uv ts)) (p (right_of uv ts))) (p (below uv ts)))
             (p (above uv ts)))
          (vec4_scale (d uv) alpha))
       beta"

definition plain_projection :: "sampler2D \<Rightarrow> sampler2D \<Rightarrow> vec2 \<Rightarrow> vec2 \<Rightarrow> vec4" where
  "plain_projection velocity pressure uv ts =
     (vec4_x (velocity uv)
        - 0.5 * (vec4_x (pressure (right_of uv ts)) - vec4_x (pressure (left_of uv ts))),
      vec4_y (velocity uv)
        - 0.5 * (vec4_x (pressure (above uv ts)) - vec4_x (pressure (below uv ts))),
      0, 1)"

text \<open>
  The body of the pressure loop seen from the pass: draw with the uniforms as they are,
  then make the texture drawn the next \<^verbatim>\<open>previousIteration\<close>.
\<close>

definition jacobi_iteration :: "renderer \<Rightarrow> jsobject \<Rightarrow> jsobject" where
  "jacobi_iteration R m = m(''previousIteration'' \<mapsto> JTexture (JacobiIterationsPass_render R m))"

text \<open>
  One Jacobi relaxation of a pressure texture \<open>t\<close> against a divergence texture \<open>d\<close>,
  drawn into a render target.
\<close>

definition jacobi_step :: "renderer \<Rightarrow> sampler2D \<Rightarrow> sampler2D \<Rightarrow> sampler2D" where
  "jacobi_step R d t = written R (\<lambda>vUV. plain_jacobi (- 1) 0.25 t d vUV (texelSize R))"

text \<open>The same loop body with the stencil that knows no obstacle and no edge.\<close>

definition plain_jacobi_iteration :: "renderer \<Rightarrow> jsobject \<Rightarrow> jsobject" where
  "plain_jacobi_iteration R m =
     m(''previousIteration'' \<mapsto>
         JTexture (written R (\<lambda>vUV. plain_jacobi (- 1) 0.25
                                  (uniform_sampler R m ''previousIteration'')
                                  (uniform_sampler R m ''divergence'') vUV (texelSize R))))"

text \<open>
  What holds of the three passes between frames: each has the uniforms of its
  constructor; the obstacle flag, the obstacle texture and the coefficients are as
  constructed; and the pressure pass's \<^verbatim>\<open>previousIteration\<close> and the projection pass's
  \<^verbatim>\<open>pressure\<close> are the texture in \<^verbatim>\<open>p\<close> once there is one.
\<close>

definition between_frames :: "simulation \<Rightarrow> bool" where
  "between_frames st \<longleftrightarrow>
     same_uniforms (velocityDivergencePass st) DivergencePass_new \<and>
     same_uniforms (pressurePass st) JacobiIterationsPass_new \<and>
     same_uniforms (pressureSubstractionPass st) GradientSubstractionPass_new \<and>
     velocityDivergencePass st ''useObstacleMask'' = Some (JBool False) \<and>
     velocityDivergencePass st ''obstacleMask'' = Some DEFAULT_IMAGE \<and>
     pressurePass st ''useObstacleMask'' = Some (JBool False) \<and>
     pressurePass st ''obstacleMask'' = Some DEFAULT_IMAGE \<and>
     pressurePass st ''alpha'' = Some (JNumber (- 1)) \<and>
     pressurePass st ''beta'' = Some (JNumber 0.25) \<and>
     pressureSubstractionPass st ''useObstacleMask'' = Some (JBool False) \<and>
     pressureSubstractionPass st ''obstacleMask'' = Some DEFAULT_IMAGE \<and>
     pressurePass st ''previousIteration'' =
       Some (if var_p st = JUndefined then DEFAULT_IMAGE else var_p st) \<and>
     pressureSubstractionPass st ''pressure'' =
       Some (if var_p st = JUndefined then DEFAULT_IMAGE else var_p st)"

section \<open>Properties\<close>

subsection \<open>Built-in functions\<close>

lemma ceil_unit: "- 1 < x \<Longrightarrow> x \<le> 1 \<Longrightarrow> ceil x = (if 0 < x then 1 else 0)"
  unfolding ceil_def by (auto simp: ceiling_eq_iff)

lemma glsl_mod_parity: "glsl_mod (real_of_int col) 2 < 0.5 \<longleftrightarrow> even col"
proof -
  have "\<lfloor>real_of_int col / 2\<rfloor> = col div 2"
    using floor_divide_of_int_eq [of col 2, where ?'a = real] by simp
  then have "glsl_mod (real_of_int col) 2 = real_of_int (col mod 2)"
    unfolding glsl_mod_def by (simp add: minus_mult_div_eq_mod [symmetric] algebra_simps)
  moreover have "col mod 2 = 0 \<or> col mod 2 = 1" by presburger
  ultimately show ?thesis by (auto simp: even_iff_mod_2_eq_zero)
qed

subsection \<open>The edge mask\<close>

lemma edgeMask_domain:
  assumes "0 \<le> ux" "ux \<le> 1" "0 \<le> uy" "uy \<le> 1" "0 < tx" "tx \<le> 1" "0 < ty" "ty \<le> 1"
  shows "edgeMask flowEnabled (ux, uy) (tx, ty) =
     (if flowEnabled
      then (if uy < ty \<or> uy > 1 - ty then 1 else 0)
      else (if ux < tx \<or> uy < ty \<or> ux > 1 - tx \<or> uy > 1 - ty then 1 else 0))"
proof -
  have l: "ceil (tx - ux) = (if ux < tx then 1 else 0)" using assms by (simp add: ceil_unit)
  have b: "ceil (ty - uy) = (if uy < ty then 1 else 0)" using assms by (simp add: ceil_unit)
  have r: "ceil (ux - (1 - tx)) = (if ux > 1 - tx then 1 else 0)" using assms by (simp add: ceil_unit)
  have t: "ceil (uy - (1 - ty)) = (if uy > 1 - ty then 1 else 0)" using assms by (simp add: ceil_unit)
  show ?thesis
    unfolding edgeMask_def Let_def fst_conv snd_conv
    by (simp add: l b r t clamp_def)
qed

subsection \<open>The loops of the chevron pattern\<close>

lemma sum_int_first:
  fixes f :: "int \<Rightarrow> real"
  assumes "a < b"
  shows "sum f {a..<b} = f a + sum f {a + 1..<b}"
proof -
  have "{a..<b} = insert a {a + 1..<b}" using assms by auto
  then have "sum f {a..<b} = sum f (insert a {a + 1..<b})" by simp
  also have "\<dots> = f a + sum f {a + 1..<b}" by (rule sum.insert) auto
  finally show ?thesis .
qed

text \<open>The inner loop adds the body's value for the columns below the count and below 20.\<close>

lemma col_loop_sum:
  "col_loop n body col m = m + (\<Sum>c\<in>{col..<min n 20}. body c)"
proof (induction n body col m rule: col_loop.induct)
  case (1 n body col m)
  show ?case
  proof (cases "col < 20 \<and> col < n")
    case True
    then have lt: "col < min n 20" by simp
    have "col_loop n body col m = col_loop n body (col + 1) (m + body col)"
      using True by (subst col_loop.simps) simp
    also have "\<dots> = (m + body col) + (\<Sum>c\<in>{col + 1..<min n 20}. body c)"
      using True "1.IH" by simp
    also have "\<dots> = m + (\<Sum>c\<in>{col..<min n 20}. body c)"
      by (simp add: sum_int_first [OF lt])
    finally show ?thesis .
  next
    case False
    then have "sum body {col..<min n 20} = 0" by auto
    moreover have "col_loop n body col m = m"
      using False by (subst col_loop.simps) auto
    ultimately show ?thesis by simp
  qed
qed

lemma row_loop_sum:
  "row_loop rows cols body row m =
     m + (\<Sum>r\<in>{row..<min rows 20}. \<Sum>c\<in>{0..<min cols 20}. body r c)"
proof (induction rows cols body row m rule: row_loop.induct)
  case (1 rows cols body row m)
  show ?case
  proof (cases "row < 20 \<and> row < rows")
    case True
    then have lt: "row < min rows 20" by simp
    have "row_loop rows cols body row m =
            row_loop rows cols body (row + 1) (col_loop cols (body row) 0 m)"
      using True by (subst row_loop.simps) simp
    also have "\<dots> = col_loop cols (body row) 0 m
                 + (\<Sum>r\<in>{row + 1..<min rows 20}. \<Sum>c\<in>{0..<min cols 20}. body r c)"
      using True "1.IH" by simp
    also have "\<dots> = m + (\<Sum>r\<in>{row..<min rows 20}. \<Sum>c\<in>{0..<min cols 20}. body r c)"
      by (simp add: sum_int_first [OF lt] col_loop_sum)
    finally show ?thesis .
  next
    case False
    then have "(\<Sum>r\<in>{row..<min rows 20}. \<Sum>c\<in>{0..<min cols 20}. body r c) = 0" by auto
    moreover have "row_loop rows cols body row m = m"
      using False by (subst row_loop.simps) auto
    ultimately show ?thesis by simp
  qed
qed

text \<open>Clamping a sum of zeros and ones to the unit interval tells whether a one occurs.\<close>

lemma clamp_indicator_sum:
  fixes g :: "'a \<Rightarrow> real"
  assumes fin: "finite S" and bin: "\<And>x. x \<in> S \<Longrightarrow> g x = 0 \<or> g x = 1"
  shows "clamp (sum g S) 0 1 = (if \<exists>x\<in>S. g x = 1 then 1 else 0)"
proof (cases "\<exists>x\<in>S. g x = 1")
  case True
  then obtain x where x: "x \<in> S" "g x = 1" by blast
  have nonneg: "\<And>y. y \<in> S \<Longrightarrow> 0 \<le> g y" using bin by force
  have "g x \<le> sum g S"
    using fin x(1) nonneg by (intro member_le_sum) auto
  then have "1 \<le> sum g S" using x(2) by simp
  then show ?thesis using True by (simp add: clamp_def)
next
  case False
  then have "\<And>y. y \<in> S \<Longrightarrow> g y = 0" using bin by blast
  then have "sum g S = 0" by simp
  then show ?thesis using False by (simp add: clamp_def)
qed

lemma row_loop_clamp:
  assumes bin: "\<And>r c. body r c = 0 \<or> body r c = (1::real)"
  shows "clamp (row_loop rows cols body 0 0) 0 1 =
     (if \<exists>r c. 0 \<le> r \<and> r < min rows 20 \<and> 0 \<le> c \<and> c < min cols 20 \<and> body r c = 1
      then 1 else 0)"
proof -
  let ?S = "{0..<min rows 20} \<times> {0..<min cols 20}"
  have "row_loop rows cols body 0 0 = (\<Sum>(r, c)\<in>?S. body r c)"
    by (simp add: row_loop_sum sum.cartesian_product)
  moreover have "clamp (\<Sum>(r, c)\<in>?S. body r c) 0 1 =
      (if \<exists>x\<in>?S. (case x of (r, c) \<Rightarrow> body r c) = 1 then 1 else 0)"
    by (rule clamp_indicator_sum) (use bin in auto)
  moreover have "(\<exists>x\<in>?S. (case x of (r, c) \<Rightarrow> body r c) = 1) \<longleftrightarrow>
      (\<exists>r c. 0 \<le> r \<and> r < min rows 20 \<and> 0 \<le> c \<and> c < min cols 20 \<and> body r c = 1)"
    by (simp add: Bex_def)
  ultimately show ?thesis by simp
qed

text \<open>The shader's rectangle test is the containment of the specification.\<close>

lemma insideRotatedRect_contains:
  "insideRotatedRect p center len wid angleDeg =
     (if rotated_rectangle_contains center len wid angleDeg p then 1 else 0)"
  by (simp add: insideRotatedRect_def rotated_rectangle_contains_def Let_def)

lemma chevronRect_contains:
  "chevronRect (fst uv * fst aspect, snd uv)
       ((fst aspect - real_of_int columns * spacingX) * 0.5 + spacingX * 0.5)
       ((1.0 - real_of_int rows * spacingY) * 0.5 + spacingY * 0.5)
       len wid angleDeg gap spacingX spacingY row col =
     (if chevron_contains columns rows len wid angleDeg gap spacingX spacingY aspect row col uv
      then 1 else 0)"
proof -
  have c: "chevron_center columns rows gap spacingX spacingY aspect row col =
      ((fst aspect - real_of_int columns * spacingX) * 0.5 + spacingX * 0.5
          + real_of_int col * spacingX + gap * 0.5 * (if even col then - 1.0 else 1.0),
       (1.0 - real_of_int rows * spacingY) * 0.5 + spacingY * 0.5 + real_of_int row * spacingY)"
    by (simp add: chevron_center_def)
  show ?thesis
    unfolding chevronRect_def chevron_contains_def Let_def c chevron_angle_def
      glsl_mod_parity [simplified] insideRotatedRect_contains
    by (simp add: glsl_mod_parity [simplified])
qed

text \<open>The pattern is one where some rectangle among the first 20 rows and columns holds the point.\<close>

lemma chevronPattern_iff:
  "chevronPattern uv columns rows len wid angleDeg gap spacingX spacingY aspect =
     (if \<exists>row col. 0 \<le> row \<and> row < min rows 20 \<and> 0 \<le> col \<and> col < min columns 20 \<and>
           chevron_contains columns rows len wid angleDeg gap spacingX spacingY aspect row col uv
      then 1 else 0)"
proof -
  let ?body = "chevronRect (fst uv * fst aspect, snd uv)
       ((fst aspect - real_of_int columns * spacingX) * 0.5 + spacingX * 0.5)
       ((1.0 - real_of_int rows * spacingY) * 0.5 + spacingY * 0.5)
       len wid angleDeg gap spacingX spacingY"
  have bin: "\<And>r c. ?body r c = 0 \<or> ?body r c = 1"
    unfolding chevronRect_contains by simp
  have one: "\<And>r c. ?body r c = 1 \<longleftrightarrow>
      chevron_contains columns rows len wid angleDeg gap spacingX spacingY aspect r c uv"
    unfolding chevronRect_contains by simp
  have "chevronPattern uv columns rows len wid angleDeg gap spacingX spacingY aspect =
      clamp (row_loop rows columns ?body 0 0) 0 1"
    by (simp add: chevronPattern_def Let_def)
  also have "\<dots> = (if \<exists>r c. 0 \<le> r \<and> r < min rows 20 \<and> 0 \<le> c \<and> c < min columns 20 \<and> ?body r c = 1
      then 1 else 0)"
    by (rule row_loop_clamp [OF bin])
  finally show ?thesis unfolding one .
qed

subsection \<open>The obstacle mask\<close>

text \<open>
  C8 (as amended).  At every sample point the obstacle mask stage outputs 1.0 if the
  pattern is enabled and the point lies in the rotated rectangle of some row below
  \<open>min rows 20\<close> and some column below \<open>min columns 20\<close>, and 0.0 otherwise; the
  containment is the translate, rotate by the negative angle and compare test, the angle's
  sign alternating with the column's parity.  With the pattern disabled the mask is zero
  at every point.
\<close>

theorem obstacle_mask_output:
  "ObstacleMaskPass_main chevronEnabled columns rows len wid angleDeg gap spacingX spacingY
       aspect uv =
     ((if chevronEnabled \<and>
          (\<exists>row col. 0 \<le> row \<and> row < min rows 20 \<and> 0 \<le> col \<and> col < min columns 20 \<and>
             chevron_contains columns rows len wid angleDeg gap spacingX spacingY aspect row col uv)
       then 1 else 0), 0, 0, 1)
   \<and> ObstacleMaskPass_main False columns rows len wid angleDeg gap spacingX spacingY aspect uv
       = (0, 0, 0, 1)"
  unfolding ObstacleMaskPass_main_def chevronPattern_iff Let_def by auto

text \<open>
  With 21 rows of rectangles, the point \<open>(0.5, 0.9)\<close> is the centre of the rectangle of
  row 20 and the mask there is 0: the loop stops after 20 rows.
\<close>

theorem obstacle_mask_row_limit_counterexample:
  "chevron_contains 1 21 0.2 0.02 0 0 0.2 0.04 (1, 1) 20 0 (0.5, 0.9)
   \<and> ObstacleMaskPass_main True 1 21 0.2 0.02 0 0 0.2 0.04 (1, 1) (0.5, 0.9) = (0, 0, 0, 1)"
proof -
  have inside: "chevron_contains 1 21 0.2 0.02 0 0 0.2 0.04 (1, 1) 20 0 (0.5, 0.9)"
    by (simp add: chevron_contains_def chevron_center_def chevron_angle_def
        rotated_rectangle_contains_def)
  have outside: "\<not> chevron_contains 1 21 0.2 0.02 0 0 0.2 0.04 (1, 1) row 0 (0.5, 0.9)"
    if "0 \<le> row" "row < 20" for row
  proof -
    have "real_of_int row \<le> 19" using that by simp
    then show ?thesis
      by (simp add: chevron_contains_def chevron_center_def chevron_angle_def
          rotated_rectangle_contains_def abs_le_iff)
  qed
  have "\<not> (\<exists>row col. 0 \<le> row \<and> row < min 21 20 \<and> 0 \<le> col \<and> col < min 1 20 \<and>
            chevron_contains 1 21 0.2 0.02 0 0 0.2 0.04 (1, 1) row col (0.5, 0.9))"
  proof
    assume "\<exists>row col. 0 \<le> row \<and> row < min 21 20 \<and> 0 \<le> col \<and> col < min 1 20 \<and>
            chevron_contains 1 21 0.2 0.02 0 0 0.2 0.04 (1, 1) row col (0.5, 0.9)"
    then obtain row col :: int where rc: "0 \<le> row" "row < 20" "0 \<le> col" "col < 1"
      and c: "chevron_contains 1 21 0.2 0.02 0 0 0.2 0.04 (1, 1) row col (0.5, 0.9)"
      by auto
    from rc have "col = 0" by simp
    with c outside [OF rc(1,2)] show False by simp
  qed
  then have "ObstacleMaskPass_main True 1 21 0.2 0.02 0 0 0.2 0.04 (1, 1) (0.5, 0.9) = (0, 0, 0, 1)"
    unfolding ObstacleMaskPass_main_def chevronPattern_iff by simp
  with inside show ?thesis by simp
qed

subsection \<open>The boundary pass\<close>

lemma chevronPattern_binary:
  "chevronPattern uv columns rows len wid angleDeg gap spacingX spacingY aspect = 0 \<or>
   chevronPattern uv columns rows len wid angleDeg gap spacingX spacingY aspect = 1"
  unfolding chevronPattern_iff by simp

lemma edgeMask_binary:
  assumes "0 \<le> ux" "ux \<le> 1" "0 \<le> uy" "uy \<le> 1" "0 < tx" "tx \<le> 1" "0 < ty" "ty \<le> 1"
  shows "edgeMask flowEnabled (ux, uy) (tx, ty) = 0 \<or> edgeMask flowEnabled (ux, uy) (tx, ty) = 1"
  unfolding edgeMask_domain [OF assms] by simp

lemma clamp_union:
  assumes "a = 0 \<or> a = 1" "b = 0 \<or> b = 1"
  shows "clamp (a + b) 0 1 = (if a = 1 \<or> b = 1 then 1 else 0)"
  using assms by (auto simp: clamp_def)

lemma BoundaryPass_chevron_mask_union:
  assumes "0 \<le> ux" "ux \<le> 1" "0 \<le> uy" "uy \<le> 1" "0 < tx" "tx \<le> 1" "0 < ty" "ty \<le> 1"
  shows "BoundaryPass_chevron_mask flowEnabled chevronEnabled columns rows len wid angleDeg gap
       spacingX spacingY aspect (ux, uy) (tx, ty) =
     (if edgeMask flowEnabled (ux, uy) (tx, ty) = 1 \<or>
         (chevronEnabled \<and>
          chevronPattern (ux, uy) columns rows len wid angleDeg gap spacingX spacingY aspect = 1)
      then 1 else 0)"
proof (cases chevronEnabled)
  case True
  then show ?thesis
    unfolding BoundaryPass_chevron_mask_def Let_def
    by (simp add: clamp_union [OF edgeMask_binary [OF assms] chevronPattern_binary])
next
  case False
  then show ?thesis
    unfolding BoundaryPass_chevron_mask_def Let_def
    using clamp_union [OF edgeMask_binary [OF assms, of flowEnabled], of 0] by simp
qed

lemma BoundaryPass_mask_union:
  assumes "0 \<le> ux" "ux \<le> 1" "0 \<le> uy" "uy \<le> 1" "0 < tx" "tx \<le> 1" "0 < ty" "ty \<le> 1"
  shows "BoundaryPass_mask flowEnabled obstacleEnabled (px, py) obstacleSize aspect (ux, uy) (tx, ty) =
     (if edgeMask flowEnabled (ux, uy) (tx, ty) = 1 \<or>
         (obstacleEnabled \<and> \<bar>ux * fst aspect - px * fst aspect\<bar> \<le> obstacleSize / 2 \<and>
          \<bar>uy - py\<bar> \<le> obstacleSize / 2)
      then 1 else 0)"
proof -
  let ?inside = "step (max (\<bar>ux * fst aspect - px * fst aspect\<bar> - obstacleSize * 0.5)
                           (\<bar>uy - py\<bar> - obstacleSize * 0.5)) 0.0"
  have inside: "?inside = (if \<bar>ux * fst aspect - px * fst aspect\<bar> \<le> obstacleSize / 2 \<and>
          \<bar>uy - py\<bar> \<le> obstacleSize / 2 then 1 else 0)"
    unfolding step_def by (simp add: less_max_iff_disj)
  have bin: "?inside = 0 \<or> ?inside = 1" unfolding inside by simp
  show ?thesis
  proof (cases obstacleEnabled)
    case True
    have "BoundaryPass_mask flowEnabled obstacleEnabled (px, py) obstacleSize aspect (ux, uy) (tx, ty)
        = clamp (edgeMask flowEnabled (ux, uy) (tx, ty) + ?inside) 0 1"
      using True by (simp add: BoundaryPass_mask_def Let_def)
    also have "\<dots> = (if edgeMask flowEnabled (ux, uy) (tx, ty) = 1 \<or> ?inside = 1 then 1 else 0)"
      by (rule clamp_union [OF edgeMask_binary [OF assms] bin])
    finally show ?thesis using True unfolding inside by simp
  next
    case False
    then show ?thesis
      unfolding BoundaryPass_mask_def Let_def
      using clamp_union [OF edgeMask_binary [OF assms, of flowEnabled], of 0] by simp
  qed
qed

text \<open>
  C9.  Inside the domain, with a texel no larger than the domain, the edge mask is 1
  exactly at the points less than one texel from any of the four edges when the flow is
  disabled, and exactly at those less than one texel from the bottom or top edge when it
  is enabled; the mask the velocity is reflected at is the union of the edge mask and the
  obstacle mask (the chevron pattern, or the square of \<^verbatim>\<open>passes/BoundaryPass.ts\<close>).
\<close>

theorem boundary_edge_mask:
  assumes "0 \<le> ux" "ux \<le> 1" "0 \<le> uy" "uy \<le> 1" "0 < tx" "tx \<le> 1" "0 < ty" "ty \<le> 1"
  shows "edgeMask False (ux, uy) (tx, ty) =
           (if ux < tx \<or> 1 - tx < ux \<or> uy < ty \<or> 1 - ty < uy then 1 else 0)
       \<and> edgeMask True (ux, uy) (tx, ty) = (if uy < ty \<or> 1 - ty < uy then 1 else 0)
       \<and> BoundaryPass_chevron_mask flowEnabled chevronEnabled columns rows len wid angleDeg gap
             spacingX spacingY aspect (ux, uy) (tx, ty) =
           (if edgeMask flowEnabled (ux, uy) (tx, ty) = 1 \<or>
               (chevronEnabled \<and>
                chevronPattern (ux, uy) columns rows len wid angleDeg gap spacingX spacingY aspect = 1)
            then 1 else 0)
       \<and> BoundaryPass_mask flowEnabled obstacleEnabled (px, py) obstacleSize aspect (ux, uy) (tx, ty) =
           (if edgeMask flowEnabled (ux, uy) (tx, ty) = 1 \<or>
               (obstacleEnabled \<and> \<bar>ux * fst aspect - px * fst aspect\<bar> \<le> obstacleSize / 2 \<and>
                \<bar>uy - py\<bar> \<le> obstacleSize / 2)
            then 1 else 0)"
proof -
  have "edgeMask False (ux, uy) (tx, ty) =
           (if ux < tx \<or> 1 - tx < ux \<or> uy < ty \<or> 1 - ty < uy then 1 else 0)"
    unfolding edgeMask_domain [OF assms] by auto
  moreover have "edgeMask True (ux, uy) (tx, ty) = (if uy < ty \<or> 1 - ty < uy then 1 else 0)"
    unfolding edgeMask_domain [OF assms] by simp
  ultimately show ?thesis
    using BoundaryPass_chevron_mask_union [OF assms] BoundaryPass_mask_union [OF assms]
    by blast
qed

text \<open>
  On a grid of 4 by 4 cells, at the centre of the cell in column 0 and row 2: the mask is
  1 with the flow disabled and 0 with the flow enabled.
\<close>

theorem boundary_edge_mask_witness:
  "edgeMask False (1 / 8, 5 / 8) (1 / 4, 1 / 4) = 1
   \<and> edgeMask True (1 / 8, 5 / 8) (1 / 4, 1 / 4) = 0
   \<and> BoundaryPass_chevron_mask True False 3 4 0.15 0.025 45 0 0.25 0.15 (1, 1)
        (1 / 8, 5 / 8) (1 / 4, 1 / 4) = 0
   \<and> BoundaryPass_mask False False (0.5, 0.5) 0.1 (1, 1) (1 / 8, 5 / 8) (1 / 4, 1 / 4) = 1"
  using
    boundary_edge_mask [where ux = "1 / 8" and uy = "5 / 8" and tx = "1 / 4" and ty = "1 / 4"
      and flowEnabled = True and chevronEnabled = False and columns = 3 and rows = 4
      and len = "0.15" and wid = "0.025" and angleDeg = 45 and gap = 0 and spacingX = "0.25"
      and spacingY = "0.15" and aspect = "(1, 1)" and obstacleEnabled = False and px = "0.5"
      and py = "0.5" and obstacleSize = "0.1"]
    boundary_edge_mask [where ux = "1 / 8" and uy = "5 / 8" and tx = "1 / 4" and ty = "1 / 4"
      and flowEnabled = False and chevronEnabled = False and columns = 3 and rows = 4
      and len = "0.15" and wid = "0.025" and angleDeg = 45 and gap = 0 and spacingX = "0.25"
      and spacingY = "0.15" and aspect = "(1, 1)" and obstacleEnabled = False and px = "0.5"
      and py = "0.5" and obstacleSize = "0.1"]
  by simp

lemma edgeMask_closed_edge:
  assumes "0 \<le> ux" "ux \<le> 1" "0 \<le> uy" "uy \<le> 1" "0 < tx" "tx \<le> 1" "0 < ty" "ty \<le> 1"
    and "(\<not> flowEnabled \<and> (ux < tx \<or> 1 - tx < ux)) \<or> uy < ty \<or> 1 - ty < uy"
  shows "edgeMask flowEnabled (ux, uy) (tx, ty) = 1"
  unfolding edgeMask_domain [OF assms(1-8)] using assms(9) by auto

lemma mix_reflect: "mix 1 (- 1) 1 = - 1"
  by (simp add: mix_def)

lemma BoundaryPass_chevron_main_edge:
  assumes "0 \<le> ux" "ux \<le> 1" "0 \<le> uy" "uy \<le> 1" "0 < tx" "tx \<le> 1" "0 < ty" "ty \<le> 1"
    and "(\<not> flowEnabled \<and> (ux < tx \<or> 1 - tx < ux)) \<or> uy < ty \<or> 1 - ty < uy"
  shows "BoundaryPass_chevron_main velocity flowEnabled chevronEnabled columns rows len wid
       angleDeg gap spacingX spacingY aspect (ux, uy) (tx, ty) = vec4_scale (velocity (ux, uy)) (- 1)"
  unfolding BoundaryPass_chevron_main_def Let_def BoundaryPass_chevron_mask_union [OF assms(1-8)]
    edgeMask_closed_edge [OF assms]
  by (simp add: mix_reflect texture2D_def)

lemma BoundaryPass_main_edge:
  assumes "0 \<le> ux" "ux \<le> 1" "0 \<le> uy" "uy \<le> 1" "0 < tx" "tx \<le> 1" "0 < ty" "ty \<le> 1"
    and "(\<not> flowEnabled \<and> (ux < tx \<or> 1 - tx < ux)) \<or> uy < ty \<or> 1 - ty < uy"
  shows "BoundaryPass_main velocity flowEnabled obstacleEnabled (px, py) obstacleSize aspect
       (ux, uy) (tx, ty) = vec4_scale (velocity (ux, uy)) (- 1)"
  unfolding BoundaryPass_main_def Let_def BoundaryPass_mask_union [OF assms(1-8)]
    edgeMask_closed_edge [OF assms]
  by (simp add: mix_reflect texture2D_def)

text \<open>
  C2 (as amended).  At a point of the domain less than one texel from a closed edge (any
  edge with the flow disabled, the bottom or top edge with the flow enabled), the boundary
  stage outputs the negation of the whole velocity sample: the normal component and the
  tangential component are both negated.  This holds for the chevron shader and for the
  shader of \<^verbatim>\<open>passes/BoundaryPass.ts\<close>.
\<close>

theorem boundary_reflection:
  assumes "0 \<le> ux" "ux \<le> 1" "0 \<le> uy" "uy \<le> 1" "0 < tx" "tx \<le> 1" "0 < ty" "ty \<le> 1"
    and "(\<not> flowEnabled \<and> (ux < tx \<or> 1 - tx < ux)) \<or> uy < ty \<or> 1 - ty < uy"
    and "velocity (ux, uy) = (vx, vy, vz, vw)"
  shows "BoundaryPass_chevron_main velocity flowEnabled chevronEnabled columns rows len wid
           angleDeg gap spacingX spacingY aspect (ux, uy) (tx, ty) = (- vx, - vy, - vz, - vw)
       \<and> BoundaryPass_main velocity flowEnabled obstacleEnabled (px, py) obstacleSize aspect
           (ux, uy) (tx, ty) = (- vx, - vy, - vz, - vw)"
  unfolding BoundaryPass_chevron_main_edge [OF assms(1-9)] BoundaryPass_main_edge [OF assms(1-9)]
  using assms(10) by simp

text \<open>
  On a grid of 4 by 4 cells, the cell in column 0 and row 1 lies on the left edge; with
  the flow disabled the velocity \<open>(1, 2)\<close> there becomes \<open>(- 1, - 2)\<close>.
\<close>

theorem boundary_reflection_witness:
  "BoundaryPass_chevron_main (\<lambda>uv. (1, 2, 0, 0)) False False 3 4 0.15 0.025 45 0 0.25 0.15 (1, 1)
       (1 / 8, 3 / 8) (1 / 4, 1 / 4) = (- 1, - 2, - 0, - 0)
   \<and> BoundaryPass_main (\<lambda>uv. (1, 2, 0, 0)) False False (0.5, 0.5) 0.1 (1, 1)
       (1 / 8, 3 / 8) (1 / 4, 1 / 4) = (- 1, - 2, - 0, - 0)"
  by (rule boundary_reflection) simp_all

text \<open>
  The tangential component does not stay as it was: at that cell of the left edge the
  normal component 1 becomes - 1, and the tangential component 2 becomes - 2.
\<close>

theorem boundary_tangential_counterexample:
  "vec4_x ((\<lambda>uv. (1, 2, 0, 0)) (cell_vUV 4 4 0 1)) \<noteq> 0
   \<and> vec4_x (BoundaryPass_chevron_main (\<lambda>uv. (1, 2, 0, 0)) False False 3 4 0.15 0.025 45 0 0.25
        0.15 (1, 1) (cell_vUV 4 4 0 1) (cell_texelSize 4 4))
      = - vec4_x ((\<lambda>uv. (1, 2, 0, 0)) (cell_vUV 4 4 0 1))
   \<and> vec4_y (BoundaryPass_chevron_main (\<lambda>uv. (1, 2, 0, 0)) False False 3 4 0.15 0.025 45 0 0.25
        0.15 (1, 1) (cell_vUV 4 4 0 1) (cell_texelSize 4 4))
      \<noteq> vec4_y ((\<lambda>uv. (1, 2, 0, 0)) (cell_vUV 4 4 0 1))"
proof -
  have uv: "cell_vUV 4 4 0 1 = (1 / 8, 3 / 8)" "cell_texelSize 4 4 = (1 / 4, 1 / 4)"
    by (simp_all add: cell_vUV_def cell_position_def vertex_vUV_def cell_texelSize_def)
  have "BoundaryPass_chevron_main (\<lambda>uv. (1, 2, 0, 0)) False False 3 4 0.15 0.025 45 0 0.25
        0.15 (1, 1) (1 / 8, 3 / 8) (1 / 4, 1 / 4) = vec4_scale (1, 2, 0, 0) (- 1)"
    by (rule BoundaryPass_chevron_main_edge) simp_all
  then show ?thesis unfolding uv by simp
qed

subsection \<open>Cells of the grid\<close>

lemma vertex_of_center: "(2 * a / w - 1) * 0.5 + 0.5 = a / (w::real)"
  by (cases "w = 0") (simp_all add: algebra_simps)

lemma cell_vUV_center:
  "cell_vUV W H i j = ((real i + 1 / 2) / real W, (real j + 1 / 2) / real H)"
  unfolding cell_vUV_def cell_position_def vertex_vUV_def fst_conv snd_conv vertex_of_center ..

subsection \<open>The divergence\<close>

text \<open>A neighbour replaced for either of two reasons by the same value.\<close>

lemma substitute_twice:
  "(if u \<and> e then c else if u \<and> ob then c else n) = (if u \<and> (e \<or> ob) then c else n)"
  by auto

lemma divergence_core:
  "(if g then vec4_splat 0.0 else vec4_splat ((x1 - x0 + y1 - y0) * 0.5)) =
   (if g then vec4_splat 0 else vec4_splat (((x1 - x0) + (y1 - y0)) / 2))"
proof -
  have e: "(x1 - x0 + y1 - y0) * 0.5 = ((x1 - x0) + (y1 - y0)) / 2"
    by (simp add: field_simps)
  show ?thesis unfolding e by simp
qed

text \<open>
  A fragment whose neighbour lies beyond an edge of the domain is less than one and a half
  texels from that edge.
\<close>

lemma beyond_edge_near:
  "0 < fst ts \<and> fst (left_of uv ts) < 0 \<longrightarrow> near_left uv ts"
  "0 < fst ts \<and> 1 < fst (right_of uv ts) \<longrightarrow> near_right uv ts"
  "0 < snd ts \<and> snd (below uv ts) < 0 \<longrightarrow> near_bottom uv ts"
  "0 < snd ts \<and> 1 < snd (above uv ts) \<longrightarrow> near_top uv ts"
  by (auto simp: left_of_def right_of_def below_def above_def
      near_left_def near_right_def near_bottom_def near_top_def)

text \<open>
  C4 (as amended).  At every fragment the divergence stage computes
  \<open>((vx(right) - vx(left)) + (vy(up) - vy(down))) / 2\<close> in texel units.  With
  \<^verbatim>\<open>useObstacleMask\<close> set, a fragment inside an obstacle reports 0 whatever the
  velocities, and for any other fragment a neighbour is replaced by the fragment's own
  velocity component when that neighbour is an obstacle or when the fragment lies less
  than one and a half texels from that edge of the domain, as it does whenever the
  neighbour lies beyond the edge.  With \<^verbatim>\<open>useObstacleMask\<close> not set (the constructor's
  default) the plain differences of the sampled neighbours are taken at every fragment,
  obstacle or not.
\<close>

theorem divergence_stencil:
  "DivergencePass_main velocity obstacleMask useObstacleMask uv ts =
     (let vx = (\<lambda>n. vec4_x (velocity n));
          vy = (\<lambda>n. vec4_y (velocity n));
          vx_left = (if useObstacleMask \<and>
                        (near_left uv ts \<or> obstacle_at obstacleMask (left_of uv ts))
                     then vx uv else vx (left_of uv ts));
          vx_right = (if useObstacleMask \<and>
                         (near_right uv ts \<or> obstacle_at obstacleMask (right_of uv ts))
                      then vx uv else vx (right_of uv ts));
          vy_down = (if useObstacleMask \<and>
                        (near_bottom uv ts \<or> obstacle_at obstacleMask (below uv ts))
                     then vy uv else vy (below uv ts));
          vy_up = (if useObstacleMask \<and>
                      (near_top uv ts \<or> obstacle_at obstacleMask (above uv ts))
                   then vy uv else vy (above uv ts))
      in if useObstacleMask \<and> obstacle_at obstacleMask uv then vec4_splat 0
         else vec4_splat (((vx_right - vx_left) + (vy_up - vy_down)) / 2))
   \<and> (0 < fst ts \<and> fst (left_of uv ts) < 0 \<longrightarrow> near_left uv ts)
   \<and> (0 < fst ts \<and> 1 < fst (right_of uv ts) \<longrightarrow> near_right uv ts)
   \<and> (0 < snd ts \<and> snd (below uv ts) < 0 \<longrightarrow> near_bottom uv ts)
   \<and> (0 < snd ts \<and> 1 < snd (above uv ts) \<longrightarrow> near_top uv ts)"
proof -
  have "DivergencePass_main velocity obstacleMask useObstacleMask uv ts =
     (let vx = (\<lambda>n. vec4_x (velocity n));
          vy = (\<lambda>n. vec4_y (velocity n));
          vx_left = (if useObstacleMask \<and>
                        (near_left uv ts \<or> obstacle_at obstacleMask (left_of uv ts))
                     then vx uv else vx (left_of uv ts));
          vx_right = (if useObstacleMask \<and>
                         (near_right uv ts \<or> obstacle_at obstacleMask (right_of uv ts))
                      then vx uv else vx (right_of uv ts));
          vy_down = (if useObstacleMask \<and>
                        (near_bottom uv ts \<or> obstacle_at obstacleMask (below uv ts))
                     then vy uv else vy (below uv ts));
          vy_up = (if useObstacleMask \<and>
                      (near_top uv ts \<or> obstacle_at obstacleMask (above uv ts))
                   then vy uv else vy (above uv ts))
      in if useObstacleMask \<and> obstacle_at obstacleMask uv then vec4_splat 0
         else vec4_splat (((vx_right - vx_left) + (vy_up - vy_down)) / 2))"
    unfolding DivergencePass_main_def Let_def
      near_left_def near_right_def near_bottom_def near_top_def
      obstacle_at_def left_of_def right_of_def below_def above_def texture2D_def
      fst_conv snd_conv substitute_twice
    by (rule divergence_core)
  then show ?thesis using beyond_edge_near [of ts uv] by blast
qed

text \<open>
  On a grid of 8 by 8 cells with the velocity \<open>(x, 0)\<close> at the point \<open>(x, y)\<close>, no
  obstacle and \<^verbatim>\<open>useObstacleMask\<close> set: at the centre of the cell in column 0 and row 2
  the left neighbour lies beyond the edge and is replaced, the divergence is \<open>1 / 16\<close>;
  at the centre of the cell in column 3 and row 2 no neighbour is replaced, the divergence is
  \<open>1 / 8\<close>.
\<close>

theorem divergence_stencil_witness:
  "DivergencePass_main (\<lambda>uv. (fst uv, 0, 0, 0)) (\<lambda>uv. (0, 0, 0, 1)) True
       (1 / 16, 5 / 16) (1 / 8, 1 / 8) = (1 / 16, 1 / 16, 1 / 16, 1 / 16)
   \<and> near_left (1 / 16, 5 / 16) (1 / 8, 1 / 8)
   \<and> DivergencePass_main (\<lambda>uv. (fst uv, 0, 0, 0)) (\<lambda>uv. (0, 0, 0, 1)) True
       (7 / 16, 5 / 16) (1 / 8, 1 / 8) = (1 / 8, 1 / 8, 1 / 8, 1 / 8)"
  using divergence_stencil [of "\<lambda>uv. (fst uv, 0, 0, 0)" "\<lambda>uv. (0, 0, 0, 1)" True
      "(1 / 16, 5 / 16)" "(1 / 8, 1 / 8)"]
    divergence_stencil [of "\<lambda>uv. (fst uv, 0, 0, 0)" "\<lambda>uv. (0, 0, 0, 1)" True
      "(7 / 16, 5 / 16)" "(1 / 8, 1 / 8)"]
  by (simp add: Let_def obstacle_at_def near_left_def near_right_def near_bottom_def near_top_def
      left_of_def right_of_def below_def above_def texture2D_def vec4_splat_def)

text \<open>
  With \<^verbatim>\<open>useObstacleMask\<close> at its default, a cell inside an obstacle does not report
  divergence 0: with the mask 1 everywhere and the velocity \<open>(x, 0)\<close> the cell in column 1
  and row 1 reports \<open>1 / 4\<close>.
\<close>

theorem divergence_obstacle_counterexample:
  "obstacle_at (\<lambda>uv. (1, 0, 0, 1)) (cell_vUV 4 4 1 1)
   \<and> DivergencePass_main (\<lambda>uv. (fst uv, 0, 0, 0)) (\<lambda>uv. (1, 0, 0, 1)) False
       (cell_vUV 4 4 1 1) (cell_texelSize 4 4) = (1 / 4, 1 / 4, 1 / 4, 1 / 4)"
  by (simp add: DivergencePass_main_def Let_def obstacle_at_def texture2D_def vec4_splat_def
      cell_vUV_center cell_texelSize_def)

subsection \<open>One Jacobi iteration\<close>

text \<open>
  C1 (as amended).  At every fragment, one iteration with \<open>\<alpha> = - 1\<close> and \<open>\<beta> = 0.25\<close>,
  the values the constructor gives the uniforms, computes
  \<open>p' = (p_left + p_right + p_down + p_up + \<alpha> \<cdot> divergence) \<cdot> \<beta>\<close>: the sum is multiplied
  by \<open>\<beta>\<close>, that is divided by 4.  With \<^verbatim>\<open>useObstacleMask\<close> set, a fragment inside an
  obstacle and a fragment less than one and a half texels from the right edge (the
  outflow edge) get 0, and elsewhere a neighbour is replaced by the centre value when it is
  an obstacle or when the fragment lies less than one and a half texels from the left,
  bottom or top edge, as it does whenever that neighbour lies beyond the edge; with
  \<^verbatim>\<open>useObstacleMask\<close> not set the sampled neighbours are taken at every fragment.
\<close>

theorem jacobi_stencil:
  "JacobiIterationsPass_main (- 1) 0.25 previousIteration divergence obstacleMask
       useObstacleMask uv ts =
     (let p = previousIteration;
          p_left = (if useObstacleMask \<and>
                       (near_left uv ts \<or> obstacle_at obstacleMask (left_of uv ts))
                    then p uv else p (left_of uv ts));
          p_right = (if useObstacleMask \<and> obstacle_at obstacleMask (right_of uv ts)
                     then p uv else p (right_of uv ts));
          p_down = (if useObstacleMask \<and>
                       (near_bottom uv ts \<or> obstacle_at obstacleMask (below uv ts))
                    then p uv else p (below uv ts));
          p_up = (if useObstacleMask \<and>
                     (near_top uv ts \<or> obstacle_at obstacleMask (above uv ts))
                  then p uv else p (above uv ts))
      in if useObstacleMask \<and> (obstacle_at obstacleMask uv \<or> near_right uv ts)
         then vec4_splat 0
         else vec4_scale
                (vec4_add (vec4_add (vec4_add (vec4_add p_left p_right) p_down) p_up)
                   (vec4_scale (divergence uv) (- 1)))
                0.25)
   \<and> uniform_float JacobiIterationsPass_new ''alpha'' = - 1
   \<and> uniform_float JacobiIterationsPass_new ''beta'' = 0.25
   \<and> (0 < fst ts \<and> fst (left_of uv ts) < 0 \<longrightarrow> near_left uv ts)
   \<and> (0 < fst ts \<and> 1 < fst (right_of uv ts) \<longrightarrow> near_right uv ts)
   \<and> (0 < snd ts \<and> snd (below uv ts) < 0 \<longrightarrow> near_bottom uv ts)
   \<and> (0 < snd ts \<and> 1 < snd (above uv ts) \<longrightarrow> near_top uv ts)"
proof -
  have u: "uniform_float JacobiIterationsPass_new ''alpha'' = - 1"
    "uniform_float JacobiIterationsPass_new ''beta'' = 0.25"
    by (simp_all add: uniform_float_def property_def JacobiIterationsPass_new_def)
  have "JacobiIterationsPass_main (- 1) 0.25 previousIteration divergence obstacleMask
       useObstacleMask uv ts =
     (let p = previousIteration;
          p_left = (if useObstacleMask \<and>
                       (near_left uv ts \<or> obstacle_at obstacleMask (left_of uv ts))
                    then p uv else p (left_of uv ts));
          p_right = (if useObstacleMask \<and> obstacle_at obstacleMask (right_of uv ts)
                     then p uv else p (right_of uv ts));
          p_down = (if useObstacleMask \<and>
                       (near_bottom uv ts \<or> obstacle_at obstacleMask (below uv ts))
                    then p uv else p (below uv ts));
          p_up = (if useObstacleMask \<and>
                     (near_top uv ts \<or> obstacle_at obstacleMask (above uv ts))
                  then p uv else p (above uv ts))
      in if useObstacleMask \<and> (obstacle_at obstacleMask uv \<or> near_right uv ts)
         then vec4_splat 0
         else vec4_scale
                (vec4_add (vec4_add (vec4_add (vec4_add p_left p_right) p_down) p_up)
                   (vec4_scale (divergence uv) (- 1)))
                0.25)"
  proof (cases "useObstacleMask \<and> fst uv > 1.0 - fst ts * 1.5")
    case True
    then show ?thesis
      unfolding JacobiIterationsPass_main_def Let_def near_right_def
      by (simp add: obstacle_at_def texture2D_def)
  next
    case False
    then have f: "(useObstacleMask \<and> fst uv > 1.0 - fst ts * 1.5) = False" by simp
    have g: "(useObstacleMask \<and> (ob \<or> fst uv > 1.0 - fst ts * 1.5)) = (useObstacleMask \<and> ob)"
      for ob
      using False by auto
    show ?thesis
      unfolding JacobiIterationsPass_main_def Let_def
        near_left_def near_right_def near_bottom_def near_top_def
        obstacle_at_def left_of_def right_of_def below_def above_def texture2D_def
        fst_conv snd_conv f g if_False substitute_twice
      by (simp split del: if_split cong: if_cong)
  qed
  with u show ?thesis using beyond_edge_near [of ts uv] by blast
qed

text \<open>
  On a grid of 8 by 8 cells with pressure \<open>x + y\<close> at the point \<open>(x, y)\<close>, divergence 2,
  no obstacle and \<^verbatim>\<open>useObstacleMask\<close> set: at the centre of the cell in column 3 and row
  2 the new pressure is \<open>(5 / 8 + 7 / 8 + 5 / 8 + 7 / 8 - 2) \<cdot> 0.25 = 1 / 4\<close>; at the
  centre of the cell in column 7, whose right neighbour lies beyond the edge, it is 0.
\<close>

theorem jacobi_stencil_witness:
  "vec4_x (JacobiIterationsPass_main (- 1) 0.25 (\<lambda>uv. (fst uv + snd uv, 0, 0, 0))
       (\<lambda>uv. (2, 0, 0, 0)) (\<lambda>uv. (0, 0, 0, 1)) True (7 / 16, 5 / 16) (1 / 8, 1 / 8))
     = 1 / 4
   \<and> near_right (15 / 16, 5 / 16) (1 / 8, 1 / 8)
   \<and> JacobiIterationsPass_main (- 1) 0.25 (\<lambda>uv. (fst uv + snd uv, 0, 0, 0))
       (\<lambda>uv. (2, 0, 0, 0)) (\<lambda>uv. (0, 0, 0, 1)) True (15 / 16, 5 / 16) (1 / 8, 1 / 8)
     = (0, 0, 0, 0)"
  using jacobi_stencil [of "\<lambda>uv. (fst uv + snd uv, 0, 0, 0)" "\<lambda>uv. (2, 0, 0, 0)"
      "\<lambda>uv. (0, 0, 0, 1)" True "(7 / 16, 5 / 16)" "(1 / 8, 1 / 8)"]
    jacobi_stencil [of "\<lambda>uv. (fst uv + snd uv, 0, 0, 0)" "\<lambda>uv. (2, 0, 0, 0)"
      "\<lambda>uv. (0, 0, 0, 1)" True "(15 / 16, 5 / 16)" "(1 / 8, 1 / 8)"]
  by (simp add: Let_def obstacle_at_def near_left_def near_right_def near_bottom_def near_top_def
      left_of_def right_of_def below_def above_def texture2D_def vec4_splat_def)

text \<open>
  The sum is not divided by \<open>\<beta>\<close>: with pressure 1 everywhere and divergence 0 the
  new pressure is \<open>(1 + 1 + 1 + 1 + (- 1) \<cdot> 0) \<cdot> 0.25 = 1\<close>, not
  \<open>(1 + 1 + 1 + 1 + (- 1) \<cdot> 0) / 0.25 = 16\<close>.
\<close>

theorem jacobi_beta_counterexample:
  "vec4_x (JacobiIterationsPass_main (- 1) 0.25 (\<lambda>uv. (1, 0, 0, 0)) (\<lambda>uv. (0, 0, 0, 0))
       (\<lambda>uv. (0, 0, 0, 1)) False (cell_vUV 4 4 1 1) (cell_texelSize 4 4)) = 1
   \<and> vec4_x (JacobiIterationsPass_main (- 1) 0.25 (\<lambda>uv. (1, 0, 0, 0)) (\<lambda>uv. (0, 0, 0, 0))
       (\<lambda>uv. (0, 0, 0, 1)) False (cell_vUV 4 4 1 1) (cell_texelSize 4 4))
     \<noteq> (1 + 1 + 1 + 1 + (- 1) * 0) / 0.25"
  by (simp add: JacobiIterationsPass_main_def Let_def texture2D_def)

subsection \<open>The projection\<close>

text \<open>
  C5 (as amended).  At every fragment the projection stage computes
  \<open>v' = v - 0.5 \<cdot> (p_right - p_left, p_up - p_down)\<close>.  With \<^verbatim>\<open>useObstacleMask\<close> set, a
  fragment inside an obstacle gets velocity zero; at a fragment less than one and a half
  texels from the right edge (the outflow edge) the right pressure neighbour is taken as
  exactly 0; and any other neighbour is replaced by the centre pressure when it is an
  obstacle or when the fragment lies less than one and a half texels from the left, bottom
  or top edge, as it does whenever that neighbour lies beyond the edge.  With
  \<^verbatim>\<open>useObstacleMask\<close> not set (the constructor's default) the sampled neighbours are taken
  at every fragment, obstacle or not.
\<close>

theorem projection_stencil:
  "GradientSubstractionPass_main velocity pressure obstacleMask useObstacleMask uv ts =
     (let p = (\<lambda>n. vec4_x (pressure n));
          p_left = (if useObstacleMask \<and>
                       (near_left uv ts \<or> obstacle_at obstacleMask (left_of uv ts))
                    then p uv else p (left_of uv ts));
          p_right = (if useObstacleMask \<and> near_right uv ts then 0
                     else if useObstacleMask \<and> obstacle_at obstacleMask (right_of uv ts)
                     then p uv else p (right_of uv ts));
          p_down = (if useObstacleMask \<and>
                       (near_bottom uv ts \<or> obstacle_at obstacleMask (below uv ts))
                    then p uv else p (below uv ts));
          p_up = (if useObstacleMask \<and>
                     (near_top uv ts \<or> obstacle_at obstacleMask (above uv ts))
                  then p uv else p (above uv ts))
      in if useObstacleMask \<and> obstacle_at obstacleMask uv then (0, 0, 0, 1)
         else (vec4_x (velocity uv) - 0.5 * (p_right - p_left),
               vec4_y (velocity uv) - 0.5 * (p_up - p_down), 0, 1))
   \<and> (0 < fst ts \<and> fst (left_of uv ts) < 0 \<longrightarrow> near_left uv ts)
   \<and> (0 < fst ts \<and> 1 < fst (right_of uv ts) \<longrightarrow> near_right uv ts)
   \<and> (0 < snd ts \<and> snd (below uv ts) < 0 \<longrightarrow> near_bottom uv ts)
   \<and> (0 < snd ts \<and> 1 < snd (above uv ts) \<longrightarrow> near_top uv ts)"
proof -
  have "GradientSubstractionPass_main velocity pressure obstacleMask useObstacleMask uv ts =
     (let p = (\<lambda>n. vec4_x (pressure n));
          p_left = (if useObstacleMask \<and>
                       (near_left uv ts \<or> obstacle_at obstacleMask (left_of uv ts))
                    then p uv else p (left_of uv ts));
          p_right = (if useObstacleMask \<and> near_right uv ts then 0
                     else if useObstacleMask \<and> obstacle_at obstacleMask (right_of uv ts)
                     then p uv else p (right_of uv ts));
          p_down = (if useObstacleMask \<and>
                       (near_bottom uv ts \<or> obstacle_at obstacleMask (below uv ts))
                    then p uv else p (below uv ts));
          p_up = (if useObstacleMask \<and>
                     (near_top uv ts \<or> obstacle_at obstacleMask (above uv ts))
                  then p uv else p (above uv ts))
      in if useObstacleMask \<and> obstacle_at obstacleMask uv then (0, 0, 0, 1)
         else (vec4_x (velocity uv) - 0.5 * (p_right - p_left),
               vec4_y (velocity uv) - 0.5 * (p_up - p_down), 0, 1))"
    unfolding GradientSubstractionPass_main_def Let_def
      near_left_def near_right_def near_bottom_def near_top_def
      obstacle_at_def left_of_def right_of_def below_def above_def texture2D_def
      fst_conv snd_conv substitute_twice
    by (simp split del: if_split cong: if_cong)
  then show ?thesis using beyond_edge_near [of ts uv] by blast
qed

text \<open>
  On a grid of 8 by 8 cells with velocity \<open>(1, 1)\<close>, pressure \<open>x\<close> at the point
  \<open>(x, y)\<close>, no obstacle and \<^verbatim>\<open>useObstacleMask\<close> set: at the centre of the cell in column
  7 and row 2, whose right neighbour lies beyond the edge, the right neighbour counts as 0
  and the left one is \<open>13 / 16\<close>, so the velocity becomes \<open>(1 + 13 / 32, 1)\<close>; at the
  centre of the cell in column 3 it becomes \<open>(1 - 1 / 8, 1)\<close>.
\<close>

theorem projection_stencil_witness:
  "GradientSubstractionPass_main (\<lambda>uv. (1, 1, 0, 0)) (\<lambda>uv. (fst uv, 0, 0, 0))
       (\<lambda>uv. (0, 0, 0, 1)) True (15 / 16, 5 / 16) (1 / 8, 1 / 8) = (45 / 32, 1, 0, 1)
   \<and> near_right (15 / 16, 5 / 16) (1 / 8, 1 / 8)
   \<and> GradientSubstractionPass_main (\<lambda>uv. (1, 1, 0, 0)) (\<lambda>uv. (fst uv, 0, 0, 0))
       (\<lambda>uv. (0, 0, 0, 1)) True (7 / 16, 5 / 16) (1 / 8, 1 / 8) = (7 / 8, 1, 0, 1)"
  using projection_stencil [of "\<lambda>uv. (1, 1, 0, 0)" "\<lambda>uv. (fst uv, 0, 0, 0)"
      "\<lambda>uv. (0, 0, 0, 1)" True "(15 / 16, 5 / 16)" "(1 / 8, 1 / 8)"]
    projection_stencil [of "\<lambda>uv. (1, 1, 0, 0)" "\<lambda>uv. (fst uv, 0, 0, 0)"
      "\<lambda>uv. (0, 0, 0, 1)" True "(7 / 16, 5 / 16)" "(1 / 8, 1 / 8)"]
  by (simp add: Let_def obstacle_at_def near_left_def near_right_def near_bottom_def near_top_def
      left_of_def right_of_def below_def above_def texture2D_def)

text \<open>
  With \<^verbatim>\<open>useObstacleMask\<close> at its default, a cell inside an obstacle is not forced to
  zero velocity: with the mask 1 everywhere, velocity \<open>(1, 1)\<close> and pressure 0 the cell
  in column 1 and row 1 keeps \<open>(1, 1)\<close>.
\<close>

theorem projection_obstacle_counterexample:
  "obstacle_at (\<lambda>uv. (1, 0, 0, 1)) (cell_vUV 4 4 1 1)
   \<and> GradientSubstractionPass_main (\<lambda>uv. (1, 1, 0, 0)) (\<lambda>uv. (0, 0, 0, 0))
       (\<lambda>uv. (1, 0, 0, 1)) False (cell_vUV 4 4 1 1) (cell_texelSize 4 4) = (1, 1, 0, 1)"
  by (simp add: GradientSubstractionPass_main_def Let_def obstacle_at_def texture2D_def)

subsection \<open>The update methods\<close>

lemma update_uniform_present:
  assumes "k \<in> dom m"
  shows "update_uniform uniforms k m = Inr (updated {k} uniforms m)"
proof -
  obtain v where v: "m k = Some v" using assms by auto
  have e: "(if property uniforms k \<noteq> JUndefined then m(k \<mapsto> property uniforms k) else m)
      = updated {k} uniforms m"
  proof (rule ext)
    fix x
    show "(if property uniforms k \<noteq> JUndefined then m(k \<mapsto> property uniforms k) else m) x
        = updated {k} uniforms m x"
      by (cases "x = k") (simp_all add: updated_def)
  qed
  show ?thesis
    unfolding e [symmetric] by (simp add: update_uniform_def set_uniform_value_def v)
qed

lemma dom_updated:
  assumes "ks \<subseteq> dom m"
  shows "dom (updated ks uniforms m) = dom m"
proof -
  have "updated ks uniforms m x = None \<longleftrightarrow> m x = None" for x
    using assms by (auto simp: updated_def)
  then show ?thesis by (auto simp: dom_def)
qed

lemma updated_updated:
  "updated ks uniforms (updated {k} uniforms m) = updated (insert k ks) uniforms m"
proof (rule ext)
  fix x
  show "updated ks uniforms (updated {k} uniforms m) x = updated (insert k ks) uniforms m x"
    by (cases "x = k") (simp_all add: updated_def)
qed

text \<open>
  When every key an update method handles is a uniform of the material, the method
  returns normally and leaves the expected table.
\<close>

lemma update_uniforms_present:
  assumes "set ks \<subseteq> dom m"
  shows "update_uniforms ks uniforms m = Inr (updated (set ks) uniforms m)"
  using assms
proof (induction ks arbitrary: m)
  case Nil
  have "updated {} uniforms m = m" by (rule ext) (auto simp: updated_def)
  then show ?case by simp
next
  case (Cons k ks)
  then have k: "k \<in> dom m" and ks: "set ks \<subseteq> dom m" by auto
  have "dom (updated {k} uniforms m) = dom m"
    using k by (intro dom_updated) simp
  with ks have "set ks \<subseteq> dom (updated {k} uniforms m)" by simp
  then have "update_uniforms ks uniforms (updated {k} uniforms m)
      = Inr (updated (set ks) uniforms (updated {k} uniforms m))"
    by (rule Cons.IH)
  then show ?case
    by (simp add: update_uniform_present [OF k] updated_updated)
qed

text \<open>A statement for a uniform the material lacks throws once its key is defined.\<close>

lemma update_uniform_absent:
  assumes "k \<notin> dom m" "property uniforms k \<noteq> JUndefined"
  shows "update_uniform uniforms k m = Inl TypeError"
  using assms by (auto simp: update_uniform_def set_uniform_value_def dom_def)

lemma update_uniform_undefined:
  assumes "property uniforms k = JUndefined"
  shows "update_uniform uniforms k m = Inr m"
  using assms by (simp add: update_uniform_def)

lemma dom_JacobiIterationsPass_new:
  "dom JacobiIterationsPass_new =
     {''alpha'', ''beta'', ''previousIteration'', ''divergence'', ''obstacleMask'',
      ''useObstacleMask''}"
  by (auto simp: JacobiIterationsPass_new_def)

lemma dom_BoundaryPass_new:
  "dom BoundaryPass_new =
     {''velocity'', ''flowEnabled'', ''obstacleEnabled'', ''obstaclePos'', ''obstacleSize'',
      ''aspect''}"
  by (auto simp: BoundaryPass_new_def)

lemma dom_GradientSubstractionPass_new:
  "dom GradientSubstractionPass_new =
     {''timeDelta'', ''velocity'', ''pressure'', ''obstacleMask'', ''useObstacleMask''}"
  by (auto simp: GradientSubstractionPass_new_def)

lemma dom_DivergencePass_new:
  "dom DivergencePass_new = {''timeDelta'', ''velocity'', ''obstacleMask'', ''useObstacleMask''}"
  by (auto simp: DivergencePass_new_def)

lemma dom_MeasurementPass_new:
  "dom MeasurementPass_new =
     {''pressureTexture'', ''velocityTexture'', ''samplePosition'', ''valueScale''}"
  by (auto simp: MeasurementPass_new_def)

lemma JacobiIterationsPass_update_eq:
  assumes "same_uniforms m JacobiIterationsPass_new"
  shows "JacobiIterationsPass_update uniforms m =
     Inr (updated {''previousIteration'', ''divergence'', ''obstacleMask'', ''useObstacleMask''}
            uniforms m)"
proof -
  have "set [''previousIteration'', ''divergence'', ''obstacleMask'', ''useObstacleMask'']
      \<subseteq> dom m"
    using assms by (simp add: same_uniforms_def dom_JacobiIterationsPass_new)
  from update_uniforms_present [OF this] show ?thesis
    by (simp add: JacobiIterationsPass_update_def insert_commute)
qed

lemma BoundaryPass_update_eq:
  assumes "same_uniforms m BoundaryPass_new"
  shows "BoundaryPass_update uniforms m = Inr (updated (dom BoundaryPass_new) uniforms m)"
proof -
  have "set [''velocity'', ''flowEnabled'', ''obstacleEnabled'', ''obstaclePos'',
       ''obstacleSize'', ''aspect''] \<subseteq> dom m"
    using assms by (simp add: same_uniforms_def dom_BoundaryPass_new)
  from update_uniforms_present [OF this] show ?thesis
    by (simp add: BoundaryPass_update_def dom_BoundaryPass_new insert_commute)
qed

text \<open>Without a defined \<^verbatim>\<open>density\<close> the statement for it does nothing.\<close>

lemma update_skip_density:
  assumes "property uniforms ''density'' = JUndefined"
  shows "update_uniforms (k # ''density'' # ks) uniforms m = update_uniforms (k # ks) uniforms m"
  by (cases "update_uniform uniforms k m") (simp_all add: update_uniform_undefined [OF assms])

lemma GradientSubstractionPass_update_eq:
  assumes "same_uniforms m GradientSubstractionPass_new"
    and "property uniforms ''density'' = JUndefined"
  shows "GradientSubstractionPass_update uniforms m =
     Inr (updated (dom GradientSubstractionPass_new) uniforms m)"
proof -
  have "set [''timeDelta'', ''velocity'', ''pressure'', ''obstacleMask'', ''useObstacleMask'']
      \<subseteq> dom m"
    using assms(1) by (simp add: same_uniforms_def dom_GradientSubstractionPass_new)
  from update_uniforms_present [OF this] show ?thesis
    unfolding GradientSubstractionPass_update_def update_skip_density [OF assms(2)]
    by (simp add: dom_GradientSubstractionPass_new insert_commute)
qed

lemma DivergencePass_update_eq:
  assumes "same_uniforms m DivergencePass_new"
    and "property uniforms ''density'' = JUndefined"
  shows "DivergencePass_update uniforms m = Inr (updated (dom DivergencePass_new) uniforms m)"
proof -
  have "set [''timeDelta'', ''velocity'', ''obstacleMask'', ''useObstacleMask''] \<subseteq> dom m"
    using assms(1) by (simp add: same_uniforms_def dom_DivergencePass_new)
  from update_uniforms_present [OF this] show ?thesis
    unfolding DivergencePass_update_def update_skip_density [OF assms(2)]
    by (simp add: dom_DivergencePass_new insert_commute)
qed

lemma MeasurementPass_update_eq:
  assumes "same_uniforms m MeasurementPass_new"
  shows "MeasurementPass_update uniforms m = Inr (updated (dom MeasurementPass_new) uniforms m)"
proof -
  have "set [''pressureTexture'', ''velocityTexture'', ''samplePosition'', ''valueScale'']
      \<subseteq> dom m"
    using assms by (simp add: same_uniforms_def dom_MeasurementPass_new)
  from update_uniforms_present [OF this] show ?thesis
    by (simp add: MeasurementPass_update_def dom_MeasurementPass_new insert_commute)
qed

lemma same_uniforms_updated:
  assumes "same_uniforms m m0" "ks \<subseteq> dom m0"
  shows "same_uniforms (updated ks uniforms m) m0"
  using assms dom_updated [of ks m uniforms] by (simp add: same_uniforms_def)

text \<open>
  The statement for \<^verbatim>\<open>density\<close> in the update of \<^verbatim>\<open>GradientSubstractionPass\<close> throws
  when the key is given, and the statements after it do not run.
\<close>

lemma GradientSubstractionPass_update_density:
  "GradientSubstractionPass_update [''density'' \<mapsto> JNumber 1, ''velocity'' \<mapsto> JBool True]
     GradientSubstractionPass_new = Inl TypeError"
  by (simp add: GradientSubstractionPass_update_def update_uniform_def set_uniform_value_def
      property_def GradientSubstractionPass_new_def)

text \<open>
  C10 (as amended).  Calling update with a parameter object sets each uniform that the
  method has a statement for and whose key the object defines (not undefined) to the
  value given, and every other uniform retains its previous value: for
  \<^verbatim>\<open>JacobiIterationsPass\<close> the uniforms with a statement are \<^verbatim>\<open>previousIteration\<close>,
  \<^verbatim>\<open>divergence\<close>, \<^verbatim>\<open>obstacleMask\<close> and \<^verbatim>\<open>useObstacleMask\<close> (not \<^verbatim>\<open>alpha\<close> and
  \<^verbatim>\<open>beta\<close>); for \<^verbatim>\<open>BoundaryPass\<close> all its uniforms; for
  \<^verbatim>\<open>GradientSubstractionPass\<close> all its uniforms, when the object defines no
  \<^verbatim>\<open>density\<close>.
\<close>

theorem update_sets_defined_keys:
  "(same_uniforms mj JacobiIterationsPass_new \<longrightarrow>
      JacobiIterationsPass_update uniforms mj =
        Inr (updated {''previousIteration'', ''divergence'', ''obstacleMask'', ''useObstacleMask''}
               uniforms mj))
   \<and> (same_uniforms mb BoundaryPass_new \<longrightarrow>
      BoundaryPass_update uniforms mb = Inr (updated (dom BoundaryPass_new) uniforms mb))
   \<and> (same_uniforms mg GradientSubstractionPass_new \<and> property uniforms ''density'' = JUndefined \<longrightarrow>
      GradientSubstractionPass_update uniforms mg =
        Inr (updated (dom GradientSubstractionPass_new) uniforms mg))"
  using JacobiIterationsPass_update_eq BoundaryPass_update_eq GradientSubstractionPass_update_eq
  by blast

text \<open>
  The parameter object \<^verbatim>\<open>{ velocity: true, useObstacleMask: true }\<close> on the three passes
  as constructed.
\<close>

theorem update_sets_defined_keys_witness:
  "JacobiIterationsPass_update [''velocity'' \<mapsto> JBool True, ''useObstacleMask'' \<mapsto> JBool True]
       JacobiIterationsPass_new =
     Inr (updated {''previousIteration'', ''divergence'', ''obstacleMask'', ''useObstacleMask''}
            [''velocity'' \<mapsto> JBool True, ''useObstacleMask'' \<mapsto> JBool True]
            JacobiIterationsPass_new)
   \<and> BoundaryPass_update [''velocity'' \<mapsto> JBool True, ''useObstacleMask'' \<mapsto> JBool True]
       BoundaryPass_new =
     Inr (updated (dom BoundaryPass_new)
            [''velocity'' \<mapsto> JBool True, ''useObstacleMask'' \<mapsto> JBool True] BoundaryPass_new)
   \<and> GradientSubstractionPass_update
       [''velocity'' \<mapsto> JBool True, ''useObstacleMask'' \<mapsto> JBool True]
       GradientSubstractionPass_new =
     Inr (updated (dom GradientSubstractionPass_new)
            [''velocity'' \<mapsto> JBool True, ''useObstacleMask'' \<mapsto> JBool True]
            GradientSubstractionPass_new)
   \<and> updated (dom GradientSubstractionPass_new)
        [''velocity'' \<mapsto> JBool True, ''useObstacleMask'' \<mapsto> JBool True]
        GradientSubstractionPass_new ''velocity'' = Some (JBool True)
   \<and> updated (dom GradientSubstractionPass_new)
        [''velocity'' \<mapsto> JBool True, ''useObstacleMask'' \<mapsto> JBool True]
        GradientSubstractionPass_new ''pressure'' = Some DEFAULT_IMAGE"
proof -
  have d: "property [''velocity'' \<mapsto> JBool True, ''useObstacleMask'' \<mapsto> JBool True] ''density''
      = JUndefined"
    by (simp add: property_def)
  have s: "same_uniforms JacobiIterationsPass_new JacobiIterationsPass_new"
    "same_uniforms BoundaryPass_new BoundaryPass_new"
    "same_uniforms GradientSubstractionPass_new GradientSubstractionPass_new"
    by (simp_all add: same_uniforms_def)
  have v: "updated (dom GradientSubstractionPass_new)
        [''velocity'' \<mapsto> JBool True, ''useObstacleMask'' \<mapsto> JBool True]
        GradientSubstractionPass_new ''velocity'' = Some (JBool True)"
    "updated (dom GradientSubstractionPass_new)
        [''velocity'' \<mapsto> JBool True, ''useObstacleMask'' \<mapsto> JBool True]
        GradientSubstractionPass_new ''pressure'' = Some DEFAULT_IMAGE"
    by (simp_all add: updated_def property_def dom_GradientSubstractionPass_new
        GradientSubstractionPass_new_def)
  from update_sets_defined_keys [of JacobiIterationsPass_new
      "[''velocity'' \<mapsto> JBool True, ''useObstacleMask'' \<mapsto> JBool True]"
      BoundaryPass_new GradientSubstractionPass_new] d s v
  show ?thesis by blast
qed

text \<open>
  A uniform whose key is present is not always changed: \<^verbatim>\<open>update({ alpha: 2 })\<close> on a
  \<^verbatim>\<open>JacobiIterationsPass\<close> as constructed returns normally and leaves the whole table
  as it was, \<^verbatim>\<open>alpha\<close> at \<open>- 1\<close>.
\<close>

theorem update_alpha_counterexample:
  "JacobiIterationsPass_new ''alpha'' = Some (JNumber (- 1))
   \<and> property [''alpha'' \<mapsto> JNumber 2] ''alpha'' = JNumber 2
   \<and> JacobiIterationsPass_update [''alpha'' \<mapsto> JNumber 2] JacobiIterationsPass_new
      = Inr JacobiIterationsPass_new"
proof -
  have "same_uniforms JacobiIterationsPass_new JacobiIterationsPass_new"
    by (simp add: same_uniforms_def)
  from JacobiIterationsPass_update_eq [OF this, of "[''alpha'' \<mapsto> JNumber 2]"]
  have u: "JacobiIterationsPass_update [''alpha'' \<mapsto> JNumber 2] JacobiIterationsPass_new =
      Inr (updated {''previousIteration'', ''divergence'', ''obstacleMask'', ''useObstacleMask''}
             [''alpha'' \<mapsto> JNumber 2] JacobiIterationsPass_new)" .
  have "updated {''previousIteration'', ''divergence'', ''obstacleMask'', ''useObstacleMask''}
             [''alpha'' \<mapsto> JNumber 2] JacobiIterationsPass_new = JacobiIterationsPass_new"
    by (rule ext) (simp add: updated_def property_def)
  with u show ?thesis
    by (simp add: property_def JacobiIterationsPass_new_def)
qed

subsection \<open>The shaders with the obstacle flag not set\<close>

lemma DivergencePass_main_plain:
  "DivergencePass_main velocity obstacleMask False uv ts = plain_divergence velocity uv ts"
proof -
  have e: "(x1 - x0 + y1 - y0) * 0.5 = ((x1 - x0) + (y1 - y0)) / 2" for x0 x1 y0 y1 :: real
    by (simp add: field_simps)
  show ?thesis
    unfolding DivergencePass_main_def plain_divergence_def Let_def e
    by (simp add: texture2D_def left_of_def right_of_def below_def above_def)
qed

lemma JacobiIterationsPass_main_plain:
  "JacobiIterationsPass_main alpha beta p d obstacleMask False uv ts = plain_jacobi alpha beta p d uv ts"
  unfolding JacobiIterationsPass_main_def plain_jacobi_def Let_def
  by (simp add: texture2D_def left_of_def right_of_def below_def above_def)

lemma GradientSubstractionPass_main_plain:
  "GradientSubstractionPass_main velocity pressure obstacleMask False uv ts =
     plain_projection velocity pressure uv ts"
  unfolding GradientSubstractionPass_main_def plain_projection_def Let_def
  by (simp add: texture2D_def left_of_def right_of_def below_def above_def)

lemma uniform_bool_False:
  assumes "m k = Some (JBool False)"
  shows "uniform_bool m k = False"
  using assms by (simp add: uniform_bool_def property_def)

lemma uniform_float_number:
  assumes "m k = Some (JNumber x)"
  shows "uniform_float m k = x"
  using assms by (simp add: uniform_float_def property_def)

lemma DivergencePass_render_plain:
  assumes "m ''useObstacleMask'' = Some (JBool False)"
  shows "DivergencePass_render R m =
     written R (\<lambda>vUV. plain_divergence (uniform_sampler R m ''velocity'') vUV (texelSize R))"
  unfolding DivergencePass_render_def
    uniform_bool_False [of m "''useObstacleMask''", OF assms] DivergencePass_main_plain ..

lemma JacobiIterationsPass_render_plain:
  assumes "m ''useObstacleMask'' = Some (JBool False)"
    and "m ''alpha'' = Some (JNumber (- 1))" and "m ''beta'' = Some (JNumber 0.25)"
  shows "JacobiIterationsPass_render R m =
     written R (\<lambda>vUV. plain_jacobi (- 1) 0.25 (uniform_sampler R m ''previousIteration'')
                        (uniform_sampler R m ''divergence'') vUV (texelSize R))"
  unfolding JacobiIterationsPass_render_def
    uniform_bool_False [of m "''useObstacleMask''", OF assms(1)]
    uniform_float_number [of m "''alpha''", OF assms(2)]
    uniform_float_number [of m "''beta''", OF assms(3)]
    JacobiIterationsPass_main_plain ..

lemma GradientSubstractionPass_render_plain:
  assumes "m ''useObstacleMask'' = Some (JBool False)"
  shows "GradientSubstractionPass_render R m =
     written R (\<lambda>vUV. plain_projection (uniform_sampler R m ''velocity'')
                        (uniform_sampler R m ''pressure'') vUV (texelSize R))"
  unfolding GradientSubstractionPass_render_def
    uniform_bool_False [of m "''useObstacleMask''", OF assms]
    GradientSubstractionPass_main_plain ..

subsection \<open>The pressure loop\<close>

lemma updated_single:
  assumes "k \<in> ks" "v \<noteq> JUndefined"
  shows "updated ks [k \<mapsto> v] m = m(k \<mapsto> v)"
proof (rule ext)
  fix x
  show "updated ks [k \<mapsto> v] m x = (m(k \<mapsto> v)) x"
    using assms by (cases "x = k") (simp_all add: updated_def property_def)
qed

lemma jacobi_iteration_other:
  assumes "k \<noteq> ''previousIteration''"
  shows "(jacobi_iteration R ^^ n) m k = m k"
  using assms by (induction n arbitrary: m) (simp_all add: jacobi_iteration_def funpow_swap1)

lemma jacobi_iteration_dom:
  assumes "same_uniforms m JacobiIterationsPass_new"
  shows "same_uniforms ((jacobi_iteration R ^^ n) m) JacobiIterationsPass_new"
proof (induction n)
  case 0
  show ?case using assms by simp
next
  case (Suc n)
  then have "''previousIteration'' \<in> dom ((jacobi_iteration R ^^ n) m)"
    by (simp add: same_uniforms_def dom_JacobiIterationsPass_new)
  then have "dom (jacobi_iteration R ((jacobi_iteration R ^^ n) m)) = dom ((jacobi_iteration R ^^ n) m)"
    by (auto simp: jacobi_iteration_def)
  with Suc show ?case by (simp add: same_uniforms_def)
qed

lemma jacobi_iteration_texture:
  assumes "0 < n"
  shows "\<exists>t. (jacobi_iteration R ^^ n) m ''previousIteration'' = Some (JTexture t)"
proof -
  obtain n' where "n = Suc n'" using assms by (cases n) auto
  then show ?thesis by (simp add: jacobi_iteration_def)
qed

text \<open>
  The loop returns normally, after \<open>N - i\<close> runs of its body when \<open>i < N\<close> and none
  otherwise: it counts up to the configured number and tests nothing else.
\<close>

lemma pressure_loop_funpow:
  assumes "same_uniforms (pressurePass st) JacobiIterationsPass_new"
  shows "pressure_loop R N i st =
     Inr (if i < N
          then st\<lparr>var_p := property ((jacobi_iteration R ^^ nat (N - i)) (pressurePass st))
                              ''previousIteration'',
                  pressurePass := (jacobi_iteration R ^^ nat (N - i)) (pressurePass st)\<rparr>
          else st)"
  using assms
proof (induction R N i st rule: pressure_loop.induct)
  case (1 R N i st)
  show ?case
  proof (cases "i < N")
    case False
    then show ?thesis by (subst pressure_loop.simps) simp
  next
    case True
    let ?t = "JTexture (JacobiIterationsPass_render R (pressurePass st))"
    let ?st1 = "st\<lparr>var_p := ?t\<rparr>"
    let ?m = "jacobi_iteration R (pressurePass st)"
    let ?st2 = "?st1\<lparr>pressurePass := ?m\<rparr>"
    have upd: "JacobiIterationsPass_update [''previousIteration'' \<mapsto> ?t] (pressurePass st)
        = Inr ?m"
      using "1.prems"
      by (simp add: JacobiIterationsPass_update_eq updated_single jacobi_iteration_def)
    have dom: "same_uniforms (pressurePass ?st2) JacobiIterationsPass_new"
      using jacobi_iteration_dom [OF "1.prems", where R = R and n = 1] by simp
    have IH: "pressure_loop R N (i + 1) ?st2 =
       Inr (if i + 1 < N
          then ?st2\<lparr>var_p := property ((jacobi_iteration R ^^ nat (N - (i + 1))) (pressurePass ?st2))
                              ''previousIteration'',
                  pressurePass := (jacobi_iteration R ^^ nat (N - (i + 1))) (pressurePass ?st2)\<rparr>
          else ?st2)"
      using "1.IH" [OF True refl dom] by simp
    have step: "pressure_loop R N i st = pressure_loop R N (i + 1) ?st2"
      by (subst pressure_loop.simps) (simp add: True Let_def upd and_then_def)
    have n: "nat (N - i) = Suc (nat (N - (i + 1)))" using True by simp
    have pow: "(jacobi_iteration R ^^ nat (N - i)) (pressurePass st)
        = (jacobi_iteration R ^^ nat (N - (i + 1))) ?m"
      unfolding n by (simp add: funpow_swap1)
    show ?thesis
    proof (cases "i + 1 < N")
      case True
      then show ?thesis
        unfolding step IH pow using \<open>i < N\<close> by simp
    next
      case False
      then have "nat (N - (i + 1)) = 0" by simp
      then have "(jacobi_iteration R ^^ nat (N - i)) (pressurePass st) = ?m"
        unfolding pow by simp
      then show ?thesis
        unfolding step IH using False \<open>i < N\<close>
        by (simp add: jacobi_iteration_def property_def)
    qed
  qed
qed

subsection \<open>One frame\<close>

text \<open>
  Between frames, a simulating call of \<^verbatim>\<open>render\<close> returns normally; the fields of the
  state it leaves are these.
\<close>

lemma render_fields:
  assumes "between_frames st" "Simulate config"
  shows "\<exists>st'. render R config dt v_in st = Inr st' \<and>
     velocityDivergencePass st' =
       updated (dom DivergencePass_new)
         [''timeDelta'' \<mapsto> JNumber dt, ''velocity'' \<mapsto> JTexture v_in]
         (velocityDivergencePass st) \<and>
     var_d st' = JTexture (DivergencePass_render R (velocityDivergencePass st')) \<and>
     pressurePass st' =
       (jacobi_iteration R ^^ nat (Iterations config))
         ((pressurePass st)(''divergence'' \<mapsto> var_d st')) \<and>
     var_p st' = (if 0 < Iterations config
                  then property (pressurePass st') ''previousIteration'' else var_p st) \<and>
     pressureSubstractionPass st' =
       updated (dom GradientSubstractionPass_new)
         [''timeDelta'' \<mapsto> JNumber dt, ''velocity'' \<mapsto> JTexture v_in, ''pressure'' \<mapsto> var_p st']
         (pressureSubstractionPass st) \<and>
     var_v st' = JTexture (GradientSubstractionPass_render R (pressureSubstractionPass st'))"
proof -
  from assms(1) have sd: "same_uniforms (velocityDivergencePass st) DivergencePass_new"
    and sp: "same_uniforms (pressurePass st) JacobiIterationsPass_new"
    and sg: "same_uniforms (pressureSubstractionPass st) GradientSubstractionPass_new"
    by (simp_all add: between_frames_def)
  let ?md = "updated (dom DivergencePass_new)
         [''timeDelta'' \<mapsto> JNumber dt, ''velocity'' \<mapsto> JTexture v_in]
         (velocityDivergencePass st)"
  let ?d = "JTexture (DivergencePass_render R ?md)"
  let ?start = "(pressurePass st)(''divergence'' \<mapsto> ?d)"
  let ?mp = "(jacobi_iteration R ^^ nat (Iterations config)) ?start"
  let ?p = "if 0 < Iterations config then property ?mp ''previousIteration'' else var_p st"
  let ?mg = "updated (dom GradientSubstractionPass_new)
         [''timeDelta'' \<mapsto> JNumber dt, ''velocity'' \<mapsto> JTexture v_in, ''pressure'' \<mapsto> ?p]
         (pressureSubstractionPass st)"
  have u1: "DivergencePass_update [''timeDelta'' \<mapsto> JNumber dt, ''velocity'' \<mapsto> JTexture v_in]
      (velocityDivergencePass st) = Inr ?md"
    by (rule DivergencePass_update_eq [OF sd]) (simp add: property_def)
  have u2: "JacobiIterationsPass_update [''divergence'' \<mapsto> ?d] (pressurePass st) = Inr ?start"
    by (simp add: JacobiIterationsPass_update_eq [OF sp] updated_single)
  have sp0: "same_uniforms ?start JacobiIterationsPass_new"
    using sp by (auto simp: same_uniforms_def dom_JacobiIterationsPass_new)
  let ?st2 = "st\<lparr>var_v := JTexture v_in, velocityDivergencePass := ?md, var_d := ?d,
                  pressurePass := ?start\<rparr>"
  have loop: "pressure_loop R (Iterations config) 0 ?st2 =
      Inr (?st2\<lparr>var_p := ?p, pressurePass := ?mp\<rparr>)"
  proof -
    have "same_uniforms (pressurePass ?st2) JacobiIterationsPass_new" using sp0 by simp
    from pressure_loop_funpow [OF this, of R "Iterations config" 0]
    have l: "pressure_loop R (Iterations config) 0 ?st2 =
       Inr (if 0 < Iterations config
            then ?st2\<lparr>var_p := property ?mp ''previousIteration'', pressurePass := ?mp\<rparr>
            else ?st2)"
      by simp
    show ?thesis
    proof (cases "0 < Iterations config")
      case True
      then show ?thesis unfolding l by simp
    next
      case False
      then have "nat (Iterations config) = 0" by simp
      then have "?mp = ?start" by simp
      then show ?thesis unfolding l using False by simp
    qed
  qed
  have u3: "GradientSubstractionPass_update
      [''timeDelta'' \<mapsto> JNumber dt, ''velocity'' \<mapsto> JTexture v_in, ''pressure'' \<mapsto> ?p]
      (pressureSubstractionPass st) = Inr ?mg"
    by (rule GradientSubstractionPass_update_eq [OF sg]) (simp add: property_def)
  have "render R config dt v_in st =
      Inr (?st2\<lparr>var_p := ?p, pressurePass := ?mp, pressureSubstractionPass := ?mg,
                 var_v := JTexture (GradientSubstractionPass_render R ?mg)\<rparr>)"
    unfolding render_def using assms(2)
    by (simp add: Let_def and_then_def u1 u2 loop u3)
  then show ?thesis by simp
qed

lemma updated_other:
  assumes "property uniforms k = JUndefined"
  shows "updated ks uniforms m k = m k"
  using assms by (simp add: updated_def)

lemma between_frames_init: "between_frames simulation_init"
  by (simp add: between_frames_def simulation_init_def same_uniforms_def DivergencePass_new_def
      JacobiIterationsPass_new_def GradientSubstractionPass_new_def)

lemma between_frames_render:
  assumes inv: "between_frames st" and r: "render R config dt v_in st = Inr st'"
  shows "between_frames st'"
proof (cases "Simulate config")
  case False
  with r have "st' = st" by (simp add: render_def)
  with inv show ?thesis by simp
next
  case True
  from inv have sd: "same_uniforms (velocityDivergencePass st) DivergencePass_new"
    and sp: "same_uniforms (pressurePass st) JacobiIterationsPass_new"
    and sg: "same_uniforms (pressureSubstractionPass st) GradientSubstractionPass_new"
    and fd: "velocityDivergencePass st ''useObstacleMask'' = Some (JBool False)"
    and od: "velocityDivergencePass st ''obstacleMask'' = Some DEFAULT_IMAGE"
    and fp: "pressurePass st ''useObstacleMask'' = Some (JBool False)"
    and op: "pressurePass st ''obstacleMask'' = Some DEFAULT_IMAGE"
    and al: "pressurePass st ''alpha'' = Some (JNumber (- 1))"
    and be: "pressurePass st ''beta'' = Some (JNumber 0.25)"
    and fg: "pressureSubstractionPass st ''useObstacleMask'' = Some (JBool False)"
    and og: "pressureSubstractionPass st ''obstacleMask'' = Some DEFAULT_IMAGE"
    and pv: "pressurePass st ''previousIteration'' =
       Some (if var_p st = JUndefined then DEFAULT_IMAGE else var_p st)"
    and pg: "pressureSubstractionPass st ''pressure'' =
       Some (if var_p st = JUndefined then DEFAULT_IMAGE else var_p st)"
    by (simp_all add: between_frames_def)
  from render_fields [OF inv True, of R dt v_in] r
  have d: "velocityDivergencePass st' =
       updated (dom DivergencePass_new)
         [''timeDelta'' \<mapsto> JNumber dt, ''velocity'' \<mapsto> JTexture v_in]
         (velocityDivergencePass st)"
    and p: "pressurePass st' =
       (jacobi_iteration R ^^ nat (Iterations config))
         ((pressurePass st)(''divergence'' \<mapsto> var_d st'))"
    and vp: "var_p st' = (if 0 < Iterations config
                  then property (pressurePass st') ''previousIteration'' else var_p st)"
    and g: "pressureSubstractionPass st' =
       updated (dom GradientSubstractionPass_new)
         [''timeDelta'' \<mapsto> JNumber dt, ''velocity'' \<mapsto> JTexture v_in, ''pressure'' \<mapsto> var_p st']
         (pressureSubstractionPass st)"
    by auto
  have sd': "same_uniforms (velocityDivergencePass st') DivergencePass_new"
    unfolding d by (rule same_uniforms_updated [OF sd]) simp
  have sg': "same_uniforms (pressureSubstractionPass st') GradientSubstractionPass_new"
    unfolding g by (rule same_uniforms_updated [OF sg]) simp
  have "same_uniforms ((pressurePass st)(''divergence'' \<mapsto> var_d st')) JacobiIterationsPass_new"
    using sp by (auto simp: same_uniforms_def dom_JacobiIterationsPass_new)
  then have sp': "same_uniforms (pressurePass st') JacobiIterationsPass_new"
    unfolding p by (rule jacobi_iteration_dom)
  have fd': "velocityDivergencePass st' ''useObstacleMask'' = Some (JBool False)"
    and od': "velocityDivergencePass st' ''obstacleMask'' = Some DEFAULT_IMAGE"
    unfolding d using fd od by (simp_all add: updated_other property_def)
  have fg': "pressureSubstractionPass st' ''useObstacleMask'' = Some (JBool False)"
    and og': "pressureSubstractionPass st' ''obstacleMask'' = Some DEFAULT_IMAGE"
    unfolding g using fg og by (simp_all add: updated_other property_def)
  have fp': "pressurePass st' ''useObstacleMask'' = Some (JBool False)"
    and op': "pressurePass st' ''obstacleMask'' = Some DEFAULT_IMAGE"
    and al': "pressurePass st' ''alpha'' = Some (JNumber (- 1))"
    and be': "pressurePass st' ''beta'' = Some (JNumber 0.25)"
    unfolding p using fp op al be by (simp_all add: jacobi_iteration_other)
  have pv': "pressurePass st' ''previousIteration'' =
       Some (if var_p st' = JUndefined then DEFAULT_IMAGE else var_p st')"
  proof (cases "0 < Iterations config")
    case True
    then have "0 < nat (Iterations config)" by simp
    from jacobi_iteration_texture [OF this]
    obtain t where "pressurePass st' ''previousIteration'' = Some (JTexture t)"
      unfolding p by blast
    then show ?thesis using True by (simp add: vp property_def)
  next
    case False
    then have "nat (Iterations config) = 0" by simp
    then have "pressurePass st' ''previousIteration'' = pressurePass st ''previousIteration''"
      unfolding p by simp
    then show ?thesis using False pv by (simp add: vp)
  qed
  have pg': "pressureSubstractionPass st' ''pressure'' =
       Some (if var_p st' = JUndefined then DEFAULT_IMAGE else var_p st')"
  proof (cases "var_p st' = JUndefined")
    case False
    then show ?thesis
      unfolding g by (simp add: updated_def property_def dom_GradientSubstractionPass_new)
  next
    case True
    have "var_p st = JUndefined"
    proof (cases "0 < Iterations config")
      case True
      then have "0 < nat (Iterations config)" by simp
      from jacobi_iteration_texture [OF this]
      obtain t where "pressurePass st' ''previousIteration'' = Some (JTexture t)"
        unfolding p by blast
      with True \<open>var_p st' = JUndefined\<close> show ?thesis by (simp add: vp property_def)
    next
      case False
      with \<open>var_p st' = JUndefined\<close> show ?thesis by (simp add: vp)
    qed
    with pg have "pressureSubstractionPass st ''pressure'' = Some DEFAULT_IMAGE" by simp
    with True show ?thesis
      unfolding g by (simp add: updated_def property_def)
  qed
  show ?thesis
    unfolding between_frames_def
    using sd' sp' sg' fd' od' fp' op' al' be' fg' og' pv' pg' by blast
qed

text \<open>Every state of the running program is as described between frames.\<close>

lemma reachable_between_frames:
  assumes "reachable R st"
  shows "between_frames st"
  using assms
proof (induction rule: reachable.induct)
  case reachable_init
  show ?case by (rule between_frames_init)
next
  case (reachable_render st config dt v_in st')
  then show ?case by (blast intro: between_frames_render)
qed

text \<open>With the flag not set and the coefficients as constructed, the loop body is the plain one.\<close>

lemma jacobi_iteration_plain:
  assumes "m ''useObstacleMask'' = Some (JBool False)"
    and "m ''alpha'' = Some (JNumber (- 1))" and "m ''beta'' = Some (JNumber 0.25)"
  shows "(jacobi_iteration R ^^ n) m = (plain_jacobi_iteration R ^^ n) m"
proof (induction n)
  case 0
  show ?case by simp
next
  case (Suc n)
  let ?m = "(jacobi_iteration R ^^ n) m"
  have "?m ''useObstacleMask'' = Some (JBool False)" "?m ''alpha'' = Some (JNumber (- 1))"
    "?m ''beta'' = Some (JNumber 0.25)"
    using assms by (simp_all add: jacobi_iteration_other)
  then have "jacobi_iteration R ?m = plain_jacobi_iteration R ?m"
    by (simp add: jacobi_iteration_def plain_jacobi_iteration_def
        JacobiIterationsPass_render_plain)
  with Suc show ?case by simp
qed

lemma plain_jacobi_iteration_other:
  assumes "k \<noteq> ''previousIteration''"
  shows "(plain_jacobi_iteration R ^^ n) m k = m k"
  using assms by (induction n arbitrary: m) (simp_all add: plain_jacobi_iteration_def funpow_swap1)

text \<open>The texture the loop body leaves after \<open>n\<close> runs is the \<open>n\<close>-fold Jacobi step.\<close>

lemma plain_jacobi_iteration_texture:
  "uniform_sampler R ((plain_jacobi_iteration R ^^ n) m) ''previousIteration'' =
     (jacobi_step R (uniform_sampler R m ''divergence'') ^^ n)
       (uniform_sampler R m ''previousIteration'')"
proof (induction n)
  case 0
  show ?case by simp
next
  case (Suc n)
  let ?m = "(plain_jacobi_iteration R ^^ n) m"
  have d: "uniform_sampler R ?m ''divergence'' = uniform_sampler R m ''divergence''"
    by (simp add: uniform_sampler_def property_def plain_jacobi_iteration_other)
  have "uniform_sampler R (plain_jacobi_iteration R ?m) ''previousIteration'' =
      jacobi_step R (uniform_sampler R ?m ''divergence'') (uniform_sampler R ?m ''previousIteration'')"
    by (simp add: plain_jacobi_iteration_def jacobi_step_def uniform_sampler_def [of R "_(_ \<mapsto> _)"]
        property_def sampler_of_def)
  then show ?case unfolding d Suc.IH by simp
qed

lemma plain_jacobi_iteration_previous:
  assumes "0 < n"
  shows "property ((plain_jacobi_iteration R ^^ n) m) ''previousIteration'' =
     JTexture ((jacobi_step R (uniform_sampler R m ''divergence'') ^^ n)
                 (uniform_sampler R m ''previousIteration''))"
proof -
  obtain n' where n: "n = Suc n'" using assms by (cases n) auto
  let ?m = "(plain_jacobi_iteration R ^^ n') m"
  have d: "uniform_sampler R ?m ''divergence'' = uniform_sampler R m ''divergence''"
    by (simp add: uniform_sampler_def property_def plain_jacobi_iteration_other)
  have "property (plain_jacobi_iteration R ?m) ''previousIteration'' =
      JTexture (jacobi_step R (uniform_sampler R ?m ''divergence'')
                  (uniform_sampler R ?m ''previousIteration''))"
    by (simp add: plain_jacobi_iteration_def jacobi_step_def property_def)
  then show ?thesis
    unfolding n d plain_jacobi_iteration_texture by simp
qed

text \<open>A simulating frame from a state of the running program, in terms of textures.\<close>

lemma render_textures:
  assumes "reachable R st" "Simulate config"
  shows "\<exists>st'. render R config dt v_in st = Inr st'
     \<and> var_d st' = JTexture (written R (\<lambda>vUV. plain_divergence v_in vUV (texelSize R)))
     \<and> pressurePass st' =
         (plain_jacobi_iteration R ^^ nat (Iterations config))
           ((pressurePass st)(''divergence'' \<mapsto> var_d st'))
     \<and> var_p st' =
         (if 0 < Iterations config
          then JTexture ((jacobi_step R (sampler_of R (var_d st')) ^^ nat (Iterations config))
                           (sampler_of R (var_p st)))
          else var_p st)
     \<and> var_v st' =
         JTexture (written R (\<lambda>vUV. plain_projection v_in (sampler_of R (var_p st')) vUV
                                  (texelSize R)))"
proof -
  have inv: "between_frames st" by (rule reachable_between_frames [OF assms(1)])
  from render_fields [OF inv assms(2), of R dt v_in]
  obtain st' where r: "render R config dt v_in st = Inr st'"
    and d: "velocityDivergencePass st' =
       updated (dom DivergencePass_new)
         [''timeDelta'' \<mapsto> JNumber dt, ''velocity'' \<mapsto> JTexture v_in]
         (velocityDivergencePass st)"
    and vd: "var_d st' = JTexture (DivergencePass_render R (velocityDivergencePass st'))"
    and p: "pressurePass st' =
       (jacobi_iteration R ^^ nat (Iterations config))
         ((pressurePass st)(''divergence'' \<mapsto> var_d st'))"
    and vp: "var_p st' = (if 0 < Iterations config
                  then property (pressurePass st') ''previousIteration'' else var_p st)"
    and g: "pressureSubstractionPass st' =
       updated (dom GradientSubstractionPass_new)
         [''timeDelta'' \<mapsto> JNumber dt, ''velocity'' \<mapsto> JTexture v_in, ''pressure'' \<mapsto> var_p st']
         (pressureSubstractionPass st)"
    and vv: "var_v st' = JTexture (GradientSubstractionPass_render R (pressureSubstractionPass st'))"
    by blast
  have inv': "between_frames st'" by (rule between_frames_render [OF inv r])
  from inv have fp: "pressurePass st ''useObstacleMask'' = Some (JBool False)"
    and al: "pressurePass st ''alpha'' = Some (JNumber (- 1))"
    and be: "pressurePass st ''beta'' = Some (JNumber 0.25)"
    and pv: "pressurePass st ''previousIteration'' =
       Some (if var_p st = JUndefined then DEFAULT_IMAGE else var_p st)"
    by (simp_all add: between_frames_def)
  from inv' have fd': "velocityDivergencePass st' ''useObstacleMask'' = Some (JBool False)"
    and fg': "pressureSubstractionPass st' ''useObstacleMask'' = Some (JBool False)"
    and pg': "pressureSubstractionPass st' ''pressure'' =
       Some (if var_p st' = JUndefined then DEFAULT_IMAGE else var_p st')"
    by (simp_all add: between_frames_def)
  let ?start = "(pressurePass st)(''divergence'' \<mapsto> var_d st')"
  have velocity_d: "uniform_sampler R (velocityDivergencePass st') ''velocity'' = v_in"
    unfolding d
    by (simp add: uniform_sampler_def sampler_of_def property_def updated_def
        dom_DivergencePass_new)
  have c1: "var_d st' = JTexture (written R (\<lambda>vUV. plain_divergence v_in vUV (texelSize R)))"
    unfolding vd DivergencePass_render_plain [of "velocityDivergencePass st'", OF fd'] velocity_d ..
  have c2: "pressurePass st' = (plain_jacobi_iteration R ^^ nat (Iterations config)) ?start"
    unfolding p using fp al be by (intro jacobi_iteration_plain) simp_all
  have start_d: "uniform_sampler R ?start ''divergence'' = sampler_of R (var_d st')"
    by (simp add: uniform_sampler_def property_def)
  have start_p: "uniform_sampler R ?start ''previousIteration'' = sampler_of R (var_p st)"
    using pv by (simp add: uniform_sampler_def property_def sampler_of_def)
  have c3: "var_p st' =
         (if 0 < Iterations config
          then JTexture ((jacobi_step R (sampler_of R (var_d st')) ^^ nat (Iterations config))
                           (sampler_of R (var_p st)))
          else var_p st)"
  proof (cases "0 < Iterations config")
    case True
    then have "0 < nat (Iterations config)" by simp
    from plain_jacobi_iteration_previous [OF this, of R ?start] True
    show ?thesis unfolding vp c2 start_d start_p by simp
  next
    case False
    then show ?thesis by (simp add: vp)
  qed
  have velocity_g: "uniform_sampler R (pressureSubstractionPass st') ''velocity'' = v_in"
    unfolding g
    by (simp add: uniform_sampler_def sampler_of_def property_def updated_def
        dom_GradientSubstractionPass_new)
  have pressure_g: "uniform_sampler R (pressureSubstractionPass st') ''pressure'' =
      sampler_of R (var_p st')"
    using pg' by (simp add: uniform_sampler_def property_def sampler_of_def)
  have c4: "var_v st' =
         JTexture (written R (\<lambda>vUV. plain_projection v_in (sampler_of R (var_p st')) vUV
                                  (texelSize R)))"
    unfolding vv GradientSubstractionPass_render_plain [of "pressureSubstractionPass st'", OF fg']
      velocity_g pressure_g ..
  from r c1 c2 c3 c4 show ?thesis by blast
qed

text \<open>
  C3.  In every state of the running program the \<^verbatim>\<open>useObstacleMask\<close> uniform of the
  divergence, pressure and projection passes is \<^verbatim>\<open>false\<close> and their \<^verbatim>\<open>obstacleMask\<close>
  is the initial \<^verbatim>\<open>Texture.DEFAULT_IMAGE\<close>; so in every simulating frame the three
  passes draw the stencils that know no obstacle and no domain edge: the divergence
  texture, each of the pressure iterations and the projected velocity are the plain ones.
\<close>

theorem obstacle_handling_never_enabled:
  assumes "reachable R st"
  shows "property (velocityDivergencePass st) ''useObstacleMask'' = JBool False
     \<and> property (pressurePass st) ''useObstacleMask'' = JBool False
     \<and> property (pressureSubstractionPass st) ''useObstacleMask'' = JBool False
     \<and> property (velocityDivergencePass st) ''obstacleMask'' = DEFAULT_IMAGE
     \<and> property (pressurePass st) ''obstacleMask'' = DEFAULT_IMAGE
     \<and> property (pressureSubstractionPass st) ''obstacleMask'' = DEFAULT_IMAGE
     \<and> (Simulate config \<longrightarrow>
          (\<exists>st'. render R config dt v_in st = Inr st'
             \<and> var_d st' = JTexture (written R (\<lambda>vUV. plain_divergence v_in vUV (texelSize R)))
             \<and> pressurePass st' =
                 (plain_jacobi_iteration R ^^ nat (Iterations config))
                   ((pressurePass st)(''divergence'' \<mapsto> var_d st'))
             \<and> var_v st' =
                 JTexture (written R (\<lambda>vUV. plain_projection v_in (sampler_of R (var_p st')) vUV
                                          (texelSize R)))))"
proof -
  have "between_frames st" by (rule reachable_between_frames [OF assms])
  then have "property (velocityDivergencePass st) ''useObstacleMask'' = JBool False"
    "property (pressurePass st) ''useObstacleMask'' = JBool False"
    "property (pressureSubstractionPass st) ''useObstacleMask'' = JBool False"
    "property (velocityDivergencePass st) ''obstacleMask'' = DEFAULT_IMAGE"
    "property (pressurePass st) ''obstacleMask'' = DEFAULT_IMAGE"
    "property (pressureSubstractionPass st) ''obstacleMask'' = DEFAULT_IMAGE"
    by (simp_all add: between_frames_def property_def)
  moreover have "\<exists>st'. render R config dt v_in st = Inr st'
             \<and> var_d st' = JTexture (written R (\<lambda>vUV. plain_divergence v_in vUV (texelSize R)))
             \<and> pressurePass st' =
                 (plain_jacobi_iteration R ^^ nat (Iterations config))
                   ((pressurePass st)(''divergence'' \<mapsto> var_d st'))
             \<and> var_v st' =
                 JTexture (written R (\<lambda>vUV. plain_projection v_in (sampler_of R (var_p st')) vUV
                                          (texelSize R)))"
    if "Simulate config"
    using render_textures [OF assms that, of dt v_in] by blast
  ultimately show ?thesis by blast
qed

text \<open>
  The first frame of the program, with two iterations, on a device that keeps what the
  shader computes: the flags are \<^verbatim>\<open>false\<close>, and the divergence drawn is the plain one.
\<close>

theorem obstacle_handling_never_enabled_witness:
  "property (velocityDivergencePass simulation_init) ''useObstacleMask'' = JBool False
   \<and> property (pressurePass simulation_init) ''useObstacleMask'' = JBool False
   \<and> property (pressureSubstractionPass simulation_init) ''useObstacleMask'' = JBool False
   \<and> (\<exists>st'. render \<lparr>emptyTexture = (\<lambda>uv. (0, 0, 0, 1)), written = (\<lambda>f. f),
                       texelSize = (1 / 4, 1 / 4)\<rparr>
               \<lparr>Simulate = True, Iterations = 2\<rparr> (1 / 60) (\<lambda>uv. (fst uv, 0, 0, 0))
               simulation_init = Inr st'
          \<and> var_d st' = JTexture (\<lambda>vUV. plain_divergence (\<lambda>uv. (fst uv, 0, 0, 0)) vUV (1 / 4, 1 / 4)))"
proof -
  have s: "Simulate \<lparr>Simulate = True, Iterations = 2\<rparr>" by simp
  from obstacle_handling_never_enabled [OF reachable_init,
      where R = "\<lparr>emptyTexture = (\<lambda>uv. (0, 0, 0, 1)), written = (\<lambda>f. f),
                    texelSize = (1 / 4, 1 / 4)\<rparr>"
        and config = "\<lparr>Simulate = True, Iterations = 2\<rparr>" and dt = "1 / 60"
        and v_in = "\<lambda>uv. (fst uv, 0, 0, 0)"] s
  show ?thesis by auto
qed

subsection \<open>The pressure solve\<close>

text \<open>
  C7.  In every simulating frame of the running program, whatever the configured count
  \<open>N\<close>, the pressure solve returns normally after exactly \<open>N\<close> Jacobi relaxations (none
  when \<open>N\<close> is not positive): the pressure it leaves in \<^verbatim>\<open>p\<close> is the \<open>N\<close>-fold Jacobi
  step, against this frame's divergence, of the pressure the previous frame left in
  \<^verbatim>\<open>p\<close>, which the first iteration reads.  No hypothesis on the residual enters.
\<close>

theorem pressure_solve_fixed_iterations:
  assumes "reachable R st" "Simulate config"
  shows "\<exists>st'. render R config dt v_in st = Inr st'
     \<and> var_p st' =
         (if 0 < Iterations config
          then JTexture ((jacobi_step R (sampler_of R (var_d st')) ^^ nat (Iterations config))
                           (sampler_of R (var_p st)))
          else var_p st)"
  using render_textures [OF assms, of dt v_in] by blast

text \<open>
  The second frame of the program, with three iterations after a first frame with two:
  its pressure is three Jacobi steps from the pressure of the first frame.
\<close>

theorem pressure_solve_fixed_iterations_witness:
  "\<exists>st1 st2.
     render \<lparr>emptyTexture = (\<lambda>uv. (0, 0, 0, 1)), written = (\<lambda>f. f), texelSize = (1 / 4, 1 / 4)\<rparr>
       \<lparr>Simulate = True, Iterations = 2\<rparr> (1 / 60) (\<lambda>uv. (fst uv, 0, 0, 0)) simulation_init
       = Inr st1
   \<and> render \<lparr>emptyTexture = (\<lambda>uv. (0, 0, 0, 1)), written = (\<lambda>f. f), texelSize = (1 / 4, 1 / 4)\<rparr>
       \<lparr>Simulate = True, Iterations = 3\<rparr> (1 / 60) (\<lambda>uv. (snd uv, 0, 0, 0)) st1
       = Inr st2
   \<and> var_p st2 =
       JTexture ((jacobi_step
                    \<lparr>emptyTexture = (\<lambda>uv. (0, 0, 0, 1)), written = (\<lambda>f. f),
                       texelSize = (1 / 4, 1 / 4)\<rparr>
                    (sampler_of
                       \<lparr>emptyTexture = (\<lambda>uv. (0, 0, 0, 1)), written = (\<lambda>f. f),
                          texelSize = (1 / 4, 1 / 4)\<rparr> (var_d st2)) ^^ 3)
                   (sampler_of
                      \<lparr>emptyTexture = (\<lambda>uv. (0, 0, 0, 1)), written = (\<lambda>f. f),
                         texelSize = (1 / 4, 1 / 4)\<rparr> (var_p st1)))"
proof -
  let ?R = "\<lparr>emptyTexture = (\<lambda>uv. (0, 0, 0, 1)), written = (\<lambda>f. f), texelSize = (1 / 4, 1 / 4)\<rparr>"
  have s2: "Simulate \<lparr>Simulate = True, Iterations = 2\<rparr>"
    and s3: "Simulate \<lparr>Simulate = True, Iterations = 3\<rparr>" by simp_all
  from pressure_solve_fixed_iterations [OF reachable_init s2, where R = ?R and dt = "1 / 60"
      and v_in = "\<lambda>uv. (fst uv, 0, 0, 0)"]
  obtain st1 where r1: "render ?R \<lparr>Simulate = True, Iterations = 2\<rparr> (1 / 60)
      (\<lambda>uv. (fst uv, 0, 0, 0)) simulation_init = Inr st1"
    by blast
  have "reachable ?R st1" by (rule reachable_render [OF reachable_init r1])
  from pressure_solve_fixed_iterations [OF this s3, where dt = "1 / 60"
      and v_in = "\<lambda>uv. (snd uv, 0, 0, 0)"]
  obtain st2 where "render ?R \<lparr>Simulate = True, Iterations = 3\<rparr> (1 / 60)
      (\<lambda>uv. (snd uv, 0, 0, 0)) st1 = Inr st2"
    and "var_p st2 = JTexture ((jacobi_step ?R (sampler_of ?R (var_d st2)) ^^ 3)
                                 (sampler_of ?R (var_p st1)))"
    by auto
  with r1 show ?thesis by blast
qed

subsection \<open>The measurement channel\<close>

lemma encode_in_range:
  assumes "0 < scale" "\<bar>x\<bar> < scale / 2"
  shows "encode scale x = x / scale + 1 / 2" "0 < encode scale x" "encode scale x < 1"
proof -
  define t where "t = x / scale"
  have "- (1 / 2) < t" "t < 1 / 2"
    using assms by (simp_all add: t_def field_simps abs_less_iff)
  then have "clamp (t + 0.5) 0.0 1.0 = t + 1 / 2" "0 < clamp (t + 0.5) 0.0 1.0"
    "clamp (t + 0.5) 0.0 1.0 < 1"
    by (simp_all add: clamp_def)
  then show "encode scale x = x / scale + 1 / 2" "0 < encode scale x" "encode scale x < 1"
    unfolding encode_def t_def by simp_all
qed

text \<open>The byte stored for a component of the unit interval is within one half of its 255-fold.\<close>

lemma unsigned_byte_nearest:
  assumes "0 \<le> c"
  shows "\<bar>real (unsigned_byte c) - c * 255\<bar> \<le> 1 / 2"
proof -
  let ?k = "\<lfloor>c * 255 + 1 / 2\<rfloor>"
  have "0 \<le> c * 255 + 1 / 2" using assms by simp
  then have "0 \<le> ?k" by simp
  then have r: "real (unsigned_byte c) = real_of_int ?k"
    by (simp add: unsigned_byte_def)
  have "real_of_int ?k \<le> c * 255 + 1 / 2" by (rule of_int_floor_le)
  moreover have "c * 255 + 1 / 2 < real_of_int ?k + 1" by linarith
  ultimately show ?thesis unfolding r abs_le_iff by linarith
qed

lemma unsigned_byte_le_255:
  assumes "c \<le> 1"
  shows "unsigned_byte c \<le> 255"
proof -
  have "c * 255 + 1 / 2 < 256" using assms by simp
  then have "\<lfloor>c * 255 + 1 / 2\<rfloor> < 256" by (simp add: floor_less_iff)
  then have "\<lfloor>c * 255 + 1 / 2\<rfloor> \<le> 255" by simp
  then have "nat \<lfloor>c * 255 + 1 / 2\<rfloor> \<le> nat 255" by (rule nat_mono)
  then show ?thesis by (simp add: unsigned_byte_def)
qed

lemma round_trip_half_step:
  assumes "0 < scale" "\<bar>x\<bar> < scale / 2"
  shows "\<bar>decode scale (unsigned_byte (encode scale x)) - x\<bar> \<le> scale / 510"
proof -
  define e where "e = encode scale x"
  define b where "b = real (unsigned_byte e)"
  have e: "e = x / scale + 1 / 2" and pos: "0 < e"
    using encode_in_range [OF assms] by (simp_all add: e_def)
  have x: "x = (e - 1 / 2) * scale" using assms(1) by (simp add: e)
  have "decode scale (unsigned_byte e) - x = (b - e * 255) * (scale / 255)"
    unfolding x by (simp add: decode_def b_def algebra_simps)
  then have "\<bar>decode scale (unsigned_byte e) - x\<bar> = \<bar>b - e * 255\<bar> * \<bar>scale / 255\<bar>"
    by (simp only: abs_mult)
  also have "\<dots> = \<bar>b - e * 255\<bar> * (scale / 255)"
    using assms(1) by simp
  also have "\<dots> \<le> (1 / 2) * (scale / 255)"
    using unsigned_byte_nearest [of e] pos assms(1)
    by (intro mult_right_mono) (simp_all add: b_def)
  finally show ?thesis by (simp add: e_def)
qed

text \<open>Each channel the shader writes is the encoding of the value it sampled.\<close>

lemma MeasurementPass_main_encode:
  "MeasurementPass_main pressureTexture velocityTexture pos valueScale =
     (encode valueScale (vec4_x (pressureTexture pos)),
      encode valueScale (vec4_x (velocityTexture pos)),
      encode valueScale (vec4_y (velocityTexture pos)), 1)"
  by (simp add: MeasurementPass_main_def Let_def encode_def texture2D_def)

text \<open>
  What \<^verbatim>\<open>sampleAtPosition\<close> returns for two textures, on a pass with the uniforms of
  its constructor: the pass holds the four values handed over, and each value returned is
  the decoding of the byte that stores the encoding of the sampled value.
\<close>

lemma sampleAtPosition_eq:
  assumes "same_uniforms m MeasurementPass_new"
  shows "sampleAtPosition R (JTexture p) (JTexture v) x y m =
     Inr (updated (dom MeasurementPass_new)
            [''pressureTexture'' \<mapsto> JTexture p, ''velocityTexture'' \<mapsto> JTexture v,
             ''samplePosition'' \<mapsto> JVector2 (max 0 (min 1 x)) (max 0 (min 1 y)),
             ''valueScale'' \<mapsto> JNumber VALUE_SCALE] m,
          decode VALUE_SCALE (unsigned_byte (encode VALUE_SCALE
            (vec4_x (p (max 0 (min 1 x), max 0 (min 1 y)))))),
          decode VALUE_SCALE (unsigned_byte (encode VALUE_SCALE
            (vec4_x (v (max 0 (min 1 x), max 0 (min 1 y)))))),
          decode VALUE_SCALE (unsigned_byte (encode VALUE_SCALE
            (vec4_y (v (max 0 (min 1 x), max 0 (min 1 y)))))))"
proof -
  let ?m = "updated (dom MeasurementPass_new)
            [''pressureTexture'' \<mapsto> JTexture p, ''velocityTexture'' \<mapsto> JTexture v,
             ''samplePosition'' \<mapsto> JVector2 (max 0 (min 1 x)) (max 0 (min 1 y)),
             ''valueScale'' \<mapsto> JNumber VALUE_SCALE] m"
  have u: "uniform_sampler R ?m ''pressureTexture'' = p"
    "uniform_sampler R ?m ''velocityTexture'' = v"
    "uniform_vec2 ?m ''samplePosition'' = (max 0 (min 1 x), max 0 (min 1 y))"
    "uniform_float ?m ''valueScale'' = VALUE_SCALE"
    by (simp_all add: uniform_sampler_def uniform_vec2_def uniform_float_def sampler_of_def
        property_def updated_def dom_MeasurementPass_new)
  show ?thesis
    unfolding sampleAtPosition_def Let_def MeasurementPass_update_eq [OF assms] and_then_def
      sum.case u MeasurementPass_main_encode
    by simp
qed

lemma round_trip_bounds:
  assumes "0 < scale" "\<bar>x\<bar> < scale / 2"
  shows "\<bar>decode scale (unsigned_byte (encode scale x)) - x\<bar> \<le> scale / 255"
    and "scale = 10 \<Longrightarrow> \<bar>decode scale (unsigned_byte (encode scale x)) - x\<bar> \<le> 0.02"
  using round_trip_half_step [OF assms] assms(1) by simp_all

text \<open>
  C6.  The measurement shader writes, for the pressure and for each velocity component,
  the encoding \<open>clamp(value / scale + 0.5, 0, 1)\<close> of the value it samples.  For every
  value \<open>x\<close> with \<open>\<bar>x\<bar> < scale / 2\<close>, decoding the byte that stores the encoding of \<open>x\<close>
  gives a value within one quantization step \<open>scale / 255\<close> of \<open>x\<close> (within half a
  step, the byte being the nearest level); for scale 10 the error is at most 0.02.
  \<^verbatim>\<open>sampleAtPosition\<close> hands the shader the constant \<^verbatim>\<open>VALUE_SCALE\<close> it decodes with,
  and each of the three values it returns (pressure, velocity x, velocity y) is within
  one step, and within 0.02, of the value sampled at the clamped position whenever that
  value lies within \<open>\<plusminus> VALUE_SCALE / 2\<close>.
\<close>

theorem measurement_round_trip:
  assumes "0 < scale" "\<bar>x\<bar> < scale / 2" "same_uniforms m MeasurementPass_new"
  shows "MeasurementPass_main pressureTexture velocityTexture pos scale =
           (encode scale (vec4_x (pressureTexture pos)),
            encode scale (vec4_x (velocityTexture pos)),
            encode scale (vec4_y (velocityTexture pos)), 1)
     \<and> \<bar>decode scale (unsigned_byte (encode scale x)) - x\<bar> \<le> scale / 255
     \<and> (scale = 10 \<longrightarrow> \<bar>decode scale (unsigned_byte (encode scale x)) - x\<bar> \<le> 0.02)
     \<and> (\<exists>m' pressure velX velY.
           sampleAtPosition R (JTexture p) (JTexture v) px py m = Inr (m', pressure, velX, velY)
         \<and> property m' ''valueScale'' = JNumber VALUE_SCALE
         \<and> property m' ''samplePosition'' = JVector2 (max 0 (min 1 px)) (max 0 (min 1 py))
         \<and> property m' ''pressureTexture'' = JTexture p
         \<and> property m' ''velocityTexture'' = JTexture v
         \<and> (\<bar>vec4_x (p (max 0 (min 1 px), max 0 (min 1 py)))\<bar> < VALUE_SCALE / 2 \<longrightarrow>
              \<bar>pressure - vec4_x (p (max 0 (min 1 px), max 0 (min 1 py)))\<bar> \<le> VALUE_SCALE / 255
            \<and> \<bar>pressure - vec4_x (p (max 0 (min 1 px), max 0 (min 1 py)))\<bar> \<le> 0.02)
         \<and> (\<bar>vec4_x (v (max 0 (min 1 px), max 0 (min 1 py)))\<bar> < VALUE_SCALE / 2 \<longrightarrow>
              \<bar>velX - vec4_x (v (max 0 (min 1 px), max 0 (min 1 py)))\<bar> \<le> VALUE_SCALE / 255
            \<and> \<bar>velX - vec4_x (v (max 0 (min 1 px), max 0 (min 1 py)))\<bar> \<le> 0.02)
         \<and> (\<bar>vec4_y (v (max 0 (min 1 px), max 0 (min 1 py)))\<bar> < VALUE_SCALE / 2 \<longrightarrow>
              \<bar>velY - vec4_y (v (max 0 (min 1 px), max 0 (min 1 py)))\<bar> \<le> VALUE_SCALE / 255
            \<and> \<bar>velY - vec4_y (v (max 0 (min 1 px), max 0 (min 1 py)))\<bar> \<le> 0.02))"
proof -
  let ?pos = "(max 0 (min 1 px), max 0 (min 1 py))"
  let ?m = "updated (dom MeasurementPass_new)
            [''pressureTexture'' \<mapsto> JTexture p, ''velocityTexture'' \<mapsto> JTexture v,
             ''samplePosition'' \<mapsto> JVector2 (max 0 (min 1 px)) (max 0 (min 1 py)),
             ''valueScale'' \<mapsto> JNumber VALUE_SCALE] m"
  have V: "0 < VALUE_SCALE" "VALUE_SCALE = 10" by (simp_all add: VALUE_SCALE_def)
  have bound: "\<bar>decode VALUE_SCALE (unsigned_byte (encode VALUE_SCALE y)) - y\<bar> \<le> VALUE_SCALE / 255
      \<and> \<bar>decode VALUE_SCALE (unsigned_byte (encode VALUE_SCALE y)) - y\<bar> \<le> 0.02"
    if "\<bar>y\<bar> < VALUE_SCALE / 2" for y
    using round_trip_bounds [OF V(1) that] V(2) by blast
  have tab: "property ?m ''valueScale'' = JNumber VALUE_SCALE"
    "property ?m ''samplePosition'' = JVector2 (max 0 (min 1 px)) (max 0 (min 1 py))"
    "property ?m ''pressureTexture'' = JTexture p"
    "property ?m ''velocityTexture'' = JTexture v"
    by (simp_all add: property_def updated_def dom_MeasurementPass_new)
  have s: "\<exists>m' pressure velX velY.
           sampleAtPosition R (JTexture p) (JTexture v) px py m = Inr (m', pressure, velX, velY)
         \<and> property m' ''valueScale'' = JNumber VALUE_SCALE
         \<and> property m' ''samplePosition'' = JVector2 (max 0 (min 1 px)) (max 0 (min 1 py))
         \<and> property m' ''pressureTexture'' = JTexture p
         \<and> property m' ''velocityTexture'' = JTexture v
         \<and> (\<bar>vec4_x (p ?pos)\<bar> < VALUE_SCALE / 2 \<longrightarrow>
              \<bar>pressure - vec4_x (p ?pos)\<bar> \<le> VALUE_SCALE / 255
            \<and> \<bar>pressure - vec4_x (p ?pos)\<bar> \<le> 0.02)
         \<and> (\<bar>vec4_x (v ?pos)\<bar> < VALUE_SCALE / 2 \<longrightarrow>
              \<bar>velX - vec4_x (v ?pos)\<bar> \<le> VALUE_SCALE / 255
            \<and> \<bar>velX - vec4_x (v ?pos)\<bar> \<le> 0.02)
         \<and> (\<bar>vec4_y (v ?pos)\<bar> < VALUE_SCALE / 2 \<longrightarrow>
              \<bar>velY - vec4_y (v ?pos)\<bar> \<le> VALUE_SCALE / 255
            \<and> \<bar>velY - vec4_y (v ?pos)\<bar> \<le> 0.02)"
    using sampleAtPosition_eq [OF assms(3), of R p v px py] tab
      bound [of "vec4_x (p ?pos)"] bound [of "vec4_x (v ?pos)"] bound [of "vec4_y (v ?pos)"]
    by blast
  from MeasurementPass_main_encode [of pressureTexture velocityTexture pos scale]
    round_trip_bounds [OF assms(1,2)] s
  show ?thesis by blast
qed

text \<open>
  The value 1.2345 with scale 10; and a pressure texture holding 1.2345 with a velocity
  texture holding \<open>(- 2.5, 3.75)\<close>, sampled at the centre of the domain by a pass as
  constructed.
\<close>

theorem measurement_round_trip_witness:
  "\<bar>decode 10 (unsigned_byte (encode 10 1.2345)) - 1.2345\<bar> \<le> 10 / 255
   \<and> \<bar>decode 10 (unsigned_byte (encode 10 1.2345)) - 1.2345\<bar> \<le> 0.02
   \<and> (\<exists>m' pressure velX velY.
        sampleAtPosition
          \<lparr>emptyTexture = (\<lambda>uv. (0, 0, 0, 1)), written = (\<lambda>f. f), texelSize = (1 / 4, 1 / 4)\<rparr>
          (JTexture (\<lambda>uv. (1.2345, 0, 0, 1))) (JTexture (\<lambda>uv. (- 2.5, 3.75, 0, 1)))
          0.5 0.5 MeasurementPass_new = Inr (m', pressure, velX, velY)
        \<and> \<bar>pressure - 1.2345\<bar> \<le> 0.02
        \<and> \<bar>velX - (- 2.5)\<bar> \<le> 0.02
        \<and> \<bar>velY - 3.75\<bar> \<le> 0.02)"
proof -
  have s: "same_uniforms MeasurementPass_new MeasurementPass_new"
    by (simp add: same_uniforms_def)
  have a: "(0::real) < 10" "\<bar>1.2345::real\<bar> < 10 / 2" by simp_all
  from measurement_round_trip [OF a s, where p = "\<lambda>uv. (1.2345, 0, 0, 1)"
      and v = "\<lambda>uv. (- 2.5, 3.75, 0, 1)" and px = "0.5" and py = "0.5"
      and R = "\<lparr>emptyTexture = (\<lambda>uv. (0, 0, 0, 1)), written = (\<lambda>f. f),
                    texelSize = (1 / 4, 1 / 4)\<rparr>"]
  show ?thesis by (simp add: VALUE_SCALE_def) blast
qed

end
